theory Spec2Isabelle
  imports Complex_Main "HOL-Library.AList"
begin

section \<open>Python values\<close>

text \<open>
  A Python \<open>str\<close> is a sequence of Unicode code points, so it is modelled as a list of
  naturals; \<open>ascii\<close> turns an ASCII literal into one. Python \<open>float\<close>s are modelled
  as exact reals: every threshold comparison of the source is then a comparison of
  reals, and rounding of the float arithmetic is not part of the model.
\<close>

type_synonym pystr = "nat list"

definition ascii :: "string \<Rightarrow> pystr" where
  "ascii s = map of_char s"

datatype error =
    IndexError
  | ZeroDivisionError
  | AttributeError
  | ValueError pystr
  | ExternalError

text \<open>\<open>s in text\<close> on two Python strings: \<open>s\<close> occurs as a contiguous substring.\<close>

fun starts_with :: "pystr \<Rightarrow> pystr \<Rightarrow> bool" where
  "starts_with [] t = True"
| "starts_with (c # s) [] = False"
| "starts_with (c # s) (d # t) = (c = d \<and> starts_with s t)"

fun py_in :: "pystr \<Rightarrow> pystr \<Rightarrow> bool" where
  "py_in s [] = (s = [])"
| "py_in s (d # t) = (starts_with s (d # t) \<or> py_in s t)"

text \<open>The code points for which \<open>str.isspace()\<close> holds; \<open>strip\<close> and \<open>split\<close> use them.\<close>

definition isspace :: "nat \<Rightarrow> bool" where
  "isspace c = ((9 \<le> c \<and> c \<le> 13) \<or> (28 \<le> c \<and> c \<le> 32) \<or> c = 133 \<or> c = 160
     \<or> c = 5760 \<or> (8192 \<le> c \<and> c \<le> 8202) \<or> c = 8232 \<or> c = 8233 \<or> c = 8239
     \<or> c = 8287 \<or> c = 12288)"

definition strip :: "pystr \<Rightarrow> pystr" where
  "strip s = rev (dropWhile isspace (rev (dropWhile isspace s)))"

text \<open>\<open>s.split()\<close>: the maximal runs of non-space code points, in order.\<close>

fun split_acc :: "pystr \<Rightarrow> pystr \<Rightarrow> pystr list" where
  "split_acc w [] = (if w = [] then [] else [rev w])"
| "split_acc w (c # s) =
     (if isspace c then (if w = [] then split_acc [] s else rev w # split_acc [] s)
      else split_acc (c # w) s)"

definition split :: "pystr \<Rightarrow> pystr list" where
  "split s = split_acc [] s"

text \<open>\<open>sep.join(xs)\<close>.\<close>

fun join :: "pystr \<Rightarrow> pystr list \<Rightarrow> pystr" where
  "join sep [] = []"
| "join sep [x] = x"
| "join sep (x # y # xs) = x @ sep @ join sep (y # xs)"

section \<open>Phrase penalties\<close>

text \<open>
  The two call sites that filter carry their own phrase lists:
  \<open>WhisperModel.generate_segment_batched\<close> (the faster-whisper model) and the
  \<open>whisper.model.Whisper\<close> branch of \<open>FasterWhisperPipeline._forward\<close>.
\<close>

definition suppress_low_batched :: "pystr list" where
  "suppress_low_batched = map ascii
     [''Thank you'', ''Thanks for'', ''ike and '', ''Bye.'', ''Bye!'', ''Bye bye!'',
      ''lease sub'', ''The end.'']"

definition suppress_high_batched :: "pystr list" where
  "suppress_high_batched = map ascii
     [''ubscribe'', ''my channel'', ''the channel'', ''our channel'', ''ollow me on'',
      ''for watching'', ''hank you for watching'', ''for your viewing'', ''r viewing'',
      ''Amara'', ''next video'', ''full video'', ''ranslation by'', ''ranslated by'',
      ''ee you next week'']"

definition suppress_low_whisper :: "pystr list" where
  "suppress_low_whisper = map ascii
     [''Thanks for'', ''ike and '', ''Bye.'', ''Bye!'', ''Bye bye!'', ''lease sub'',
      ''The end.'']"

text \<open>
  The last four phrases are Vietnamese; they are written as their code points
  (the source file holds them precomposed).
\<close>

definition suppress_high_whisper :: "pystr list" where
  "suppress_high_whisper = map ascii
     [''ubscribe'', ''my channel'', ''the channel'', ''our channel'', ''ollow me on'',
      ''for watching'', ''hank you for watching'']
   @ [[72, 227, 121] @ ascii '' subscribe'',
      [71, 104, 105, 7873, 110, 32, 77, 236, 32, 71, 245],
      [107, 104, 244, 110, 103, 32, 98, 7887, 32, 108, 7905, 32, 110, 104, 7919, 110,
       103, 32, 118, 105, 100, 101, 111, 32, 104, 7845, 112, 32, 100, 7851, 110],
      [107, 234, 110, 104] @ ascii '' La La School'']"

text \<open>
  \<open>for s in phrases: if s in text: avg_logprob -= p\<close>: one pass over the list, one
  subtraction for each listed phrase that occurs in the text.
\<close>

definition penalise :: "real \<Rightarrow> pystr list \<Rightarrow> pystr \<Rightarrow> real \<Rightarrow> real" where
  "penalise p phrases text avg =
     foldl (\<lambda>a s. if py_in s text then a - p else a) avg phrases"

definition matches :: "pystr list \<Rightarrow> pystr \<Rightarrow> nat" where
  "matches phrases text = length (filter (\<lambda>s. py_in s text) phrases)"

definition penalties_batched :: "pystr \<Rightarrow> real \<Rightarrow> real" where
  "penalties_batched text avg =
     penalise 0.35 suppress_high_batched text (penalise 0.15 suppress_low_batched text avg)"

definition penalties_whisper :: "pystr \<Rightarrow> real \<Rightarrow> real" where
  "penalties_whisper text avg =
     penalise 0.35 suppress_high_whisper text (penalise 0.15 suppress_low_whisper text avg)"

section \<open>The faster-whisper branch: generate_segment_batched\<close>

text \<open>
  One entry of \<open>results\<close>, as \<open>self.model.generate\<close> returns it (the fields the
  loop reads).
\<close>

record generation_result =
  sequences_ids :: "nat list list"
  scores :: "real list"
  no_speech_prob :: real

text \<open>The dict appended to \<open>output\<close> for a candidate that is kept.\<close>

record kept_candidate =
  avg_logprob :: real
  kept_no_speech_prob :: real
  kept_text :: pystr

text \<open>
  \<open>seq_len ** length_penalty\<close> for a length and a float (or int) exponent. Python
  gives \<open>0 ** 0 = 1\<close> and raises ZeroDivisionError on \<open>0\<close> to a negative power.
\<close>

definition py_pow :: "nat \<Rightarrow> real \<Rightarrow> error + real" where
  "py_pow b e =
     (if e = 0 then Inr 1
      else if b = 0 then (if e < 0 then Inl ZeroDivisionError else Inr 0)
      else Inr (real b powr e))"

text \<open>\<open>xs[0]\<close> raises IndexError on an empty list.\<close>

definition first :: "'a list \<Rightarrow> error + 'a" where
  "first xs = (case xs of [] \<Rightarrow> Inl IndexError | x # _ \<Rightarrow> Inr x)"

text \<open>
  The body of \<open>for r in results\<close> up to the decoded text: the length-normalised score
  and the text of the first hypothesis.
\<close>

definition score_and_text ::
  "(nat list \<Rightarrow> pystr) \<Rightarrow> real \<Rightarrow> generation_result \<Rightarrow> error + (real \<times> pystr)" where
  "score_and_text decode length_penalty r =
     (case first (sequences_ids r) of
        Inl e \<Rightarrow> Inl e
      | Inr ids \<Rightarrow>
          (case first (scores r) of
             Inl e \<Rightarrow> Inl e
           | Inr score \<Rightarrow>
               (case py_pow (length ids) length_penalty of
                  Inl e \<Rightarrow> Inl e
                | Inr pw \<Rightarrow>
                    Inr (score * pw / (real (length ids) + 1), decode ids))))"

text \<open>
  The rest of the body: penalties, then \<open>continue\<close> (nothing appended) when the
  penalised score is below \<open>-1.0\<close> or \<open>no_speech_prob\<close> is above \<open>0.7\<close>.
\<close>

definition keep_batched :: "real \<Rightarrow> real \<Rightarrow> pystr \<Rightarrow> kept_candidate list" where
  "keep_batched avg nsp txt =
     (let avg' = penalties_batched txt avg in
      if avg' < - 1.0 \<or> nsp > 0.7 then []
      else [\<lparr>avg_logprob = avg', kept_no_speech_prob = nsp, kept_text = txt\<rparr>])"

fun filter_results ::
  "(nat list \<Rightarrow> pystr) \<Rightarrow> real \<Rightarrow> generation_result list \<Rightarrow> error + kept_candidate list" where
  "filter_results decode length_penalty [] = Inr []"
| "filter_results decode length_penalty (r # rs) =
     (case score_and_text decode length_penalty r of
        Inl e \<Rightarrow> Inl e
      | Inr (avg, txt) \<Rightarrow>
          (case filter_results decode length_penalty rs of
             Inl e \<Rightarrow> Inl e
           | Inr out \<Rightarrow> Inr (keep_batched avg (no_speech_prob r) txt @ out)))"

text \<open>
  \<open>generate_segment_batched\<close> from the model's results on: the filtered list, then
  \<open>text = [x['text'] for x in results]\<close>.
\<close>

definition generate_segment_batched ::
  "(nat list \<Rightarrow> pystr) \<Rightarrow> real \<Rightarrow> generation_result list \<Rightarrow> error + pystr list" where
  "generate_segment_batched decode length_penalty results =
     (case filter_results decode length_penalty results of
        Inl e \<Rightarrow> Inl e
      | Inr out \<Rightarrow> Inr (map kept_text out))"

section \<open>The openai-whisper branch of _forward\<close>

text \<open>One entry of \<open>result["segments"]\<close>, as \<open>whisper\<close>'s \<open>transcribe\<close> returns it.\<close>

record whisper_segment =
  seg_text :: pystr
  seg_avg_logprob :: real
  seg_no_speech_prob :: real
  seg_compression_ratio :: real

text \<open>
  The body of \<open>for r in result\<close>: penalties on \<open>r["avg_logprob"]\<close>, then
  \<open>continue\<close> on the four-way disjunction, else the text is appended.
\<close>

definition keep_whisper :: "whisper_segment \<Rightarrow> pystr list" where
  "keep_whisper r =
     (let avg' = penalties_whisper (seg_text r) (seg_avg_logprob r) in
      if (avg' < - 0.5 \<and> seg_compression_ratio r < 1)
         \<or> (avg' < - 0.5 \<and> seg_compression_ratio r > 2)
         \<or> seg_no_speech_prob r > 0.7
         \<or> strip (seg_text r) = []
      then []
      else [seg_text r])"

text \<open>
  One input's output: the kept texts joined by a space, then whitespace collapsed
  (\<open>" ".join(output.split())\<close>).
\<close>

definition whisper_output :: "whisper_segment list \<Rightarrow> pystr" where
  "whisper_output result =
     join (ascii '' '') (split (join (ascii '' '') (concat (map keep_whisper result))))"

section \<open>The segment source: data\<close>

text \<open>\<open>int(x)\<close> on a float truncates towards zero.\<close>

definition py_int :: "real \<Rightarrow> int" where
  "py_int x = (if 0 \<le> x then \<lfloor>x\<rfloor> else \<lceil>x\<rceil>)"

text \<open>
  \<open>xs[f1:f2]\<close>: a negative bound counts from the end, and both bounds are clipped
  to \<open>0 .. len(xs)\<close>; a slice never raises.
\<close>

definition slice_bound :: "nat \<Rightarrow> int \<Rightarrow> nat" where
  "slice_bound n i = (if i < 0 then nat (max 0 (int n + i)) else min (nat i) n)"

definition slice :: "'a list \<Rightarrow> int \<Rightarrow> int \<Rightarrow> 'a list" where
  "slice xs f1 f2 =
     (let lo = slice_bound (length xs) f1; hi = slice_bound (length xs) f2
      in take (hi - lo) (drop lo xs))"

text \<open>One merged VAD segment: \<open>seg['start']\<close> and \<open>seg['end']\<close>, in seconds.\<close>

record vad_segment =
  vad_start :: real
  vad_end :: real

text \<open>
  The generator \<open>data(audio, segments)\<close> of \<open>transcribe\<close>, as the list of what it
  yields. \<open>SAMPLE_RATE\<close> comes from the audio module and is a parameter here.
\<close>

definition data :: "real \<Rightarrow> 'a list \<Rightarrow> vad_segment list \<Rightarrow> 'a list list" where
  "data sample_rate audio segments =
     map (\<lambda>seg. slice audio (py_int (vad_start seg * sample_rate))
                              (py_int (vad_end seg * sample_rate))) segments"

section \<open>The pipeline object\<close>

text \<open>
  The file uses \<open>Tokenizer\<close>, \<open>TranscriptionOptions\<close>, \<open>replace\<close>, \<open>Vad\<close>,
  \<open>Silero\<close> and \<open>Pyannote\<close> without importing them; they are read as the
  faster-whisper tokenizer and options classes, \<open>dataclasses.replace\<close> and the VAD
  classes of the package. The trained models, the tokenizer's vocabulary and the VAD
  are external: what the code calls on them is a field or a parameter below.
\<close>

record transcription_options =
  beam_size :: nat
  patience :: real
  length_penalty :: real
  suppress_tokens :: "int list"

text \<open>
  The values \<open>language\<close> and \<open>task\<close> take: \<open>None\<close>, a string, or (the task of a
  faster-whisper tokenizer) a token id. \<open>x or y\<close> tests truthiness.
\<close>

datatype pyval = PyNone | PyStr pystr | PyInt int

definition truthy :: "pyval \<Rightarrow> bool" where
  "truthy v = (case v of PyNone \<Rightarrow> False | PyStr s \<Rightarrow> s \<noteq> [] | PyInt i \<Rightarrow> i \<noteq> 0)"

definition py_or :: "pyval \<Rightarrow> pyval \<Rightarrow> pyval" where
  "py_or x y = (if truthy x then x else y)"

record tokenizer =
  language_code :: pyval
  task :: pyval
  eot :: nat
  decode :: "nat list \<Rightarrow> pystr"

text \<open>
  What the code calls on a faster-whisper \<open>WhisperModel\<close>: \<open>self.model.generate\<close> on
  a batch (with the options it passes), the \<open>Tokenizer\<close> constructor on the model's
  \<open>hf_tokenizer\<close> for a task and a language, and the language token
  \<open>detect_language\<close> reads from \<open>self.model.model.detect_language\<close>. An input is
  the sample slice; the per-item feature extraction of \<open>preprocess\<close> is part of the
  external function.
\<close>

record 'a faster_whisper =
  generate :: "transcription_options \<Rightarrow> 'a list list \<Rightarrow> generation_result list"
  new_tokenizer :: "pyval \<Rightarrow> pyval \<Rightarrow> tokenizer"
  language_token :: "'a list \<Rightarrow> pystr"

text \<open>
  The three classes \<open>_forward\<close> tells apart with \<open>isinstance\<close>: openai-whisper's
  \<open>Whisper\<close> (its \<open>transcribe\<close> on one input, giving \<open>result["segments"]\<close>),
  \<open>HuggingfaceWhisperModel\<close> (its \<open>transcribe\<close> on a batch) and \<open>WhisperModel\<close>.
  A VAD is one of the two the loader constructs, or an instance the caller passes in
  (\<open>Assigned\<close>, an opaque handle).
\<close>

datatype 'a model =
    Whisper "transcription_options \<Rightarrow> 'a list \<Rightarrow> whisper_segment list"
  | HuggingfaceWhisperModel "'a list list \<Rightarrow> pystr list"
  | WhisperModel "'a faster_whisper"

datatype vad =
    Silero "(pystr \<times> real) list"
  | Pyannote pystr "(pystr \<times> real) list"
  | Assigned nat

record 'a pipeline =
  model :: "'a model"
  tokenizer :: "tokenizer option"
  options :: transcription_options
  preset_language :: "pystr option"
  suppress_numerals :: bool
  batch_size_attr :: "nat option"
  vad_model :: vad
  vad_params :: "(pystr \<times> real) list"

section \<open>load_model\<close>

text \<open>
  \<open>d.update(e)\<close> on dicts kept as association lists: a key of \<open>e\<close> replaces the
  value in place or is appended.
\<close>

fun dict_update :: "('k \<times> 'v) list \<Rightarrow> ('k \<times> 'v) list \<Rightarrow> ('k \<times> 'v) list" where
  "dict_update d [] = d"
| "dict_update d ((k, v) # e) = dict_update (AList.update k v d) e"

definition endswith :: "pystr \<Rightarrow> pystr \<Rightarrow> bool" where
  "endswith s suffix = starts_with (rev suffix) (rev s)"

definition default_vad_options :: "(pystr \<times> real) list" where
  "default_vad_options = [(ascii ''vad_onset'', 0.8), (ascii ''vad_offset'', 0.5)]"

text \<open>\<open>f"Invalid vad_method: {vad_method}"\<close>; \<open>None\<close> is printed as \<open>None\<close>.\<close>

definition invalid_vad_method :: "pystr option \<Rightarrow> pystr" where
  "invalid_vad_method m =
     ascii ''Invalid vad_method: '' @ (case m of None \<Rightarrow> ascii ''None'' | Some s \<Rightarrow> s)"

text \<open>\<open>default_vad_options.update(vad_options)\<close> when \<open>vad_options\<close> is given.\<close>

definition merged_vad_options :: "(pystr \<times> real) list option \<Rightarrow> (pystr \<times> real) list" where
  "merged_vad_options vad_options =
     (case vad_options of
        None \<Rightarrow> default_vad_options
      | Some v \<Rightarrow> dict_update default_vad_options v)"

text \<open>
  The library calls of \<open>load_model\<close>, each of which may raise:
  \<open>whisper.load_model(whisper_arch)\<close>, giving the model (as what its \<open>transcribe\<close>
  computes); \<open>AutoTokenizer.from_pretrained\<close>; the construction of the options from
  the loaded model and \<open>asr_options\<close> (lines 523 to 559: the defaults, which read
  \<open>model.model.is_multilingual\<close>, the merge, the removal of \<open>suppress_numerals\<close> and
  the \<open>TranscriptionOptions\<close> constructor, which rejects a field it does not know);
  \<open>torch.device(device)\<close>; and the constructors \<open>Silero\<close> and \<open>Pyannote\<close>. For
  the last three \<open>None\<close> means that the call does not raise.
\<close>

record ('a, 'o) loader =
  whisper_load_model ::
    "pystr \<Rightarrow> error + (transcription_options \<Rightarrow> 'a list \<Rightarrow> whisper_segment list)"
  auto_tokenizer :: "error + tokenizer"
  build_options ::
    "(transcription_options \<Rightarrow> 'a list \<Rightarrow> whisper_segment list) \<Rightarrow> 'o \<Rightarrow>
     error + (transcription_options \<times> bool)"
  torch_device :: "pystr \<Rightarrow> error option"
  silero_init :: "(pystr \<times> real) list \<Rightarrow> error option"
  pyannote_init :: "pystr \<Rightarrow> (pystr \<times> real) list \<Rightarrow> error option"

text \<open>
  Lines 569 to 579: a VAD instance that is passed in is used; otherwise the method
  name chooses the constructor, and any other name raises.
\<close>

definition choose_vad ::
  "('a, 'o) loader \<Rightarrow> pystr \<Rightarrow> vad option \<Rightarrow> pystr option \<Rightarrow> (pystr \<times> real) list \<Rightarrow>
   error + vad" where
  "choose_vad ld device vad_model_arg vad_method vad_opts =
     (case vad_model_arg of
        Some v \<Rightarrow> Inr v
      | None \<Rightarrow>
          if vad_method = Some (ascii ''silero'') then
            (case silero_init ld vad_opts of
               Some e \<Rightarrow> Inl e
             | None \<Rightarrow> Inr (Silero vad_opts))
          else if vad_method = Some (ascii ''pyannote'') then
            (case torch_device ld device of
               Some e \<Rightarrow> Inl e
             | None \<Rightarrow>
                 (case pyannote_init ld device vad_opts of
                    Some e \<Rightarrow> Inl e
                  | None \<Rightarrow> Inr (Pyannote device vad_opts)))
          else Inl (ValueError (invalid_vad_method vad_method)))"

text \<open>\<open>load_model\<close>, in the order of its statements.\<close>

definition load_model ::
  "('a, 'o) loader \<Rightarrow> pystr \<Rightarrow> pystr \<Rightarrow> 'o \<Rightarrow> pystr option \<Rightarrow> vad option \<Rightarrow>
   pystr option \<Rightarrow> (pystr \<times> real) list option \<Rightarrow> error + 'a pipeline" where
  "load_model ld whisper_arch device asr_options language vad_model_arg vad_method
       vad_options =
     (let language = (if endswith whisper_arch (ascii ''.en'') then Some (ascii ''en'')
                      else language)
      in case whisper_load_model ld whisper_arch of
           Inl e \<Rightarrow> Inl e
         | Inr m \<Rightarrow>
             (case auto_tokenizer ld of
                Inl e \<Rightarrow> Inl e
              | Inr tok \<Rightarrow>
                  (case build_options ld m asr_options of
                     Inl e \<Rightarrow> Inl e
                   | Inr (opts, numerals) \<Rightarrow>
                       (case choose_vad ld device vad_model_arg vad_method
                               (merged_vad_options vad_options) of
                          Inl e \<Rightarrow> Inl e
                        | Inr v \<Rightarrow>
                            Inr \<lparr>model = Whisper m, tokenizer = Some tok, options = opts,
                                 preset_language = language, suppress_numerals = numerals,
                                 batch_size_attr = None, vad_model = v,
                                 vad_params = merged_vad_options vad_options\<rparr>))))"

section \<open>The pipeline call\<close>

text \<open>
  \<open>_forward\<close> on one batch of inputs, giving the list under \<open>'text'\<close>. The
  openai-whisper branch transcribes the inputs one by one and gives one text for each.
\<close>

definition forward :: "'a pipeline \<Rightarrow> 'a list list \<Rightarrow> error + pystr list" where
  "forward p model_inputs =
     (case model p of
        Whisper transcribe_one \<Rightarrow>
          Inr (map (\<lambda>x. whisper_output (transcribe_one (options p) x)) model_inputs)
      | HuggingfaceWhisperModel transcribe_batch \<Rightarrow> Inr (transcribe_batch model_inputs)
      | WhisperModel fw \<Rightarrow>
          (case tokenizer p of
             None \<Rightarrow> Inl AttributeError
           | Some tok \<Rightarrow>
               generate_segment_batched (decode tok) (length_penalty (options p))
                 (generate fw (options p) model_inputs)))"

text \<open>
  \<open>self.__call__\<close> is the \<open>transformers\<close> pipeline call: on a generator it returns
  \<open>get_iterator\<close>. That chain is library code; it is modelled as the library
  behaves. The \<open>DataLoader\<close> groups the inputs into consecutive batches of
  \<open>batch_size\<close>, the last one possibly shorter.
\<close>

function batches :: "nat \<Rightarrow> 'x list \<Rightarrow> 'x list list" where
  "batches n xs = (if n = 0 \<or> xs = [] then [] else take n xs # batches n (drop n xs))"
  by pat_completeness auto
termination
  by (relation "measure (\<lambda>(n, xs). length xs)") auto

declare batches.simps [simp del]

text \<open>
  What \<open>out['text']\<close> is for one item the iterator yields: the whole list of a batch,
  or one string of it.
\<close>

datatype out_text = Texts "pystr list" | Text pystr

text \<open>
  The \<open>PipelineIterator\<close> over \<open>forward\<close> with a \<open>loader_batch_size\<close>: for each
  batch output it observes the length of the list, lowers \<open>loader_batch_size\<close> to it
  when it is positive and smaller, and then yields \<open>element[index]\<close> for each index
  below \<open>loader_batch_size\<close>; indexing past the end of the list raises. The result
  is the items yielded and the exception that ends the iteration, if any.
\<close>

fun unbatch :: "nat \<Rightarrow> (error + pystr list) list \<Rightarrow> out_text list \<times> error option" where
  "unbatch lbs [] = ([], None)"
| "unbatch lbs (Inl e # ps) = ([], Some e)"
| "unbatch lbs (Inr b # ps) =
     (let lbs' = (if 0 < length b \<and> length b < lbs then length b else lbs);
          (outs, err) = (if length b < lbs' then ([], Some IndexError) else unbatch lbs' ps)
      in (map Text (take lbs' b) @ outs, err))"

text \<open>
  A batch size of 1 switches the unbatching off (\<open>loader_batch_size\<close> becomes
  \<open>None\<close>): each batch output is yielded whole.
\<close>

fun whole :: "(error + pystr list) list \<Rightarrow> out_text list \<times> error option" where
  "whole [] = ([], None)"
| "whole (Inl e # ps) = ([], Some e)"
| "whole (Inr b # ps) = (let (outs, err) = whole ps in (Texts b # outs, err))"

text \<open>
  The call itself: a \<open>batch_size\<close> of \<open>None\<close> becomes the pipeline's own or 1, and
  the \<open>DataLoader\<close> refuses a batch size of 0.
\<close>

definition call_pipeline ::
  "'a pipeline \<Rightarrow> 'a list list \<Rightarrow> nat option \<Rightarrow> out_text list \<times> error option" where
  "call_pipeline p inputs batch_size =
     (let n = (case batch_size of
                 None \<Rightarrow> (case batch_size_attr p of None \<Rightarrow> 1 | Some b \<Rightarrow> b)
               | Some b \<Rightarrow> b)
      in if n = 0 then ([], Some (ValueError (ascii ''batch_size should be a positive integer value'')))
         else if n = 1 then whole (map (forward p) (batches 1 inputs))
         else unbatch n (map (forward p) (batches n inputs)))"

section \<open>transcribe\<close>

text \<open>
  \<open>find_numeral_symbol_tokens\<close>: the token ids below \<open>eot\<close> whose decoded text, less
  one leading space, holds a digit or one of the percent, dollar and pound signs.
\<close>

definition removeprefix_space :: "pystr \<Rightarrow> pystr" where
  "removeprefix_space s = (case s of [] \<Rightarrow> [] | c # r \<Rightarrow> if c = 32 then r else s)"

definition has_numeral_symbol :: "pystr \<Rightarrow> bool" where
  "has_numeral_symbol token =
     list_ex (\<lambda>c. (48 \<le> c \<and> c \<le> 57) \<or> c = 37 \<or> c = 36 \<or> c = 163) token"

definition find_numeral_symbol_tokens :: "tokenizer \<Rightarrow> nat list" where
  "find_numeral_symbol_tokens tok =
     filter (\<lambda>i. has_numeral_symbol (removeprefix_space (decode tok [i]))) [0..<eot tok]"

text \<open>\<open>detect_language\<close>: the language token without its two-character brackets.\<close>

definition detect_language :: "'a faster_whisper \<Rightarrow> 'a list \<Rightarrow> pyval" where
  "detect_language fw audio = PyStr (slice (language_token fw audio) 2 (- 2))"

text \<open>
  Lines 404 to 417: for a \<open>WhisperModel\<close> the language and the task are settled and
  the tokenizer is built or rebuilt; for the other models nothing happens. The result
  is the pipeline, the language, and how often \<open>detect_language\<close> was called.
\<close>

definition select_tokenizer ::
  "'a pipeline \<Rightarrow> 'a list \<Rightarrow> pyval \<Rightarrow> pyval \<Rightarrow> 'a pipeline \<times> pyval \<times> nat" where
  "select_tokenizer p audio lang tsk =
     (case model p of
        WhisperModel fw \<Rightarrow>
          (case tokenizer p of
             None \<Rightarrow>
               (let language = (if truthy lang then lang else detect_language fw audio);
                    n = (if truthy lang then 0 else 1);
                    task = py_or tsk (PyStr (ascii ''transcribe''))
                in (p\<lparr>tokenizer := Some (new_tokenizer fw task language)\<rparr>, language, n))
           | Some tok \<Rightarrow>
               (let language = py_or lang (language_code tok);
                    task' = py_or tsk (task tok)
                in if task' \<noteq> task tok \<or> language \<noteq> language_code tok
                   then (p\<lparr>tokenizer := Some (new_tokenizer fw task' language)\<rparr>, language, 0)
                   else (p, language, 0)))
      | _ \<Rightarrow> (p, lang, 0))"

text \<open>
  Lines 419 to 425: with \<open>suppress_numerals\<close> the options are replaced by a copy
  whose \<open>suppress_tokens\<close> also hold the numeral tokens. \<open>list(set(...))\<close> leaves the
  order to the interpreter, so \<open>set_list\<close> is a parameter. Reading \<open>eot\<close> of a
  tokenizer that is \<open>None\<close> raises. The result is the pipeline and
  \<open>previous_suppress_tokens\<close>.
\<close>

definition override_numerals ::
  "(int list \<Rightarrow> int list) \<Rightarrow> 'a pipeline \<Rightarrow> error + ('a pipeline \<times> int list)" where
  "override_numerals set_list p =
     (if suppress_numerals p then
        (case tokenizer p of
           None \<Rightarrow> Inl AttributeError
         | Some tok \<Rightarrow>
             (let previous_suppress_tokens = suppress_tokens (options p);
                  numeral_symbol_tokens = map int (find_numeral_symbol_tokens tok);
                  new_suppressed_tokens =
                    set_list (numeral_symbol_tokens @ suppress_tokens (options p))
              in Inr (p\<lparr>options := (options p)\<lparr>suppress_tokens := new_suppressed_tokens\<rparr>\<rparr>,
                      previous_suppress_tokens)))
      else Inr (p, []))"

text \<open>Lines 446 to 452: the tokenizer and the suppressed tokens are put back.\<close>

definition revert :: "'a pipeline \<Rightarrow> int list \<Rightarrow> 'a pipeline" where
  "revert p previous_suppress_tokens =
     (let p1 = (if preset_language p = None then p\<lparr>tokenizer := None\<rparr> else p)
      in if suppress_numerals p1
         then p1\<lparr>options := (options p1)\<lparr>suppress_tokens := previous_suppress_tokens\<rparr>\<rparr>
         else p1)"

text \<open>\<open>round(x, 3)\<close>: to the nearest thousandth, a tie going to the even one.\<close>

definition round_half_even :: "real \<Rightarrow> int" where
  "round_half_even x =
     (let f = \<lfloor>x\<rfloor>; d = x - of_int f
      in if d < 1 / 2 then f else if 1 / 2 < d then f + 1 else if even f then f else f + 1)"

definition round3 :: "real \<Rightarrow> real" where
  "round3 x = of_int (round_half_even (x * 1000)) / 1000"

record segment =
  segment_text :: out_text
  segment_start :: real
  segment_end :: real

record transcription_result =
  segments :: "segment list"
  language :: pyval

text \<open>\<open>text[0]\<close> on a list or on a string.\<close>

definition index0 :: "out_text \<Rightarrow> error + out_text" where
  "index0 t =
     (case t of
        Texts l \<Rightarrow> (case l of [] \<Rightarrow> Inl IndexError | s # _ \<Rightarrow> Inr (Text s))
      | Text s \<Rightarrow> (case s of [] \<Rightarrow> Inl IndexError | c # _ \<Rightarrow> Inr (Text [c])))"

text \<open>
  \<open>transcribe\<close> is a generator. A run of it is what it yielded, how it ended, and
  the pipeline it leaves behind. It ends by returning its result, by raising, or
  suspended at a \<open>yield\<close> because the consumer stopped asking. \<open>pulls\<close> is how many
  values the consumer asks for: \<open>None\<close> for all of them.
\<close>

datatype stop = Exhausted | Failed error | Abandoned

datatype ending = Returned transcription_result | Raised error | Suspended

record 'a run =
  yielded :: "out_text list"
  ending :: ending
  after :: "'a pipeline"
  detections :: nat

text \<open>
  The loop of lines 430 to 444 over the items of the pipeline call (\<open>err\<close> is the
  exception that ends them, if any): the segments appended, the texts yielded, and how
  the loop stopped.
\<close>

fun consume ::
  "vad_segment list \<Rightarrow> bool \<Rightarrow> nat \<Rightarrow> out_text list \<Rightarrow> error option \<Rightarrow> nat option \<Rightarrow>
   segment list \<times> out_text list \<times> stop" where
  "consume vads single idx [] err pulls =
     ([], [], (case err of None \<Rightarrow> Exhausted | Some e \<Rightarrow> Failed e))"
| "consume vads single idx (out # outs) err pulls =
     (case (if single then index0 out else Inr out) of
        Inl e \<Rightarrow> ([], [], Failed e)
      | Inr txt \<Rightarrow>
          if idx < length vads then
            (let seg = \<lparr>segment_text = txt,
                        segment_start = round3 (vad_start (vads ! idx)),
                        segment_end = round3 (vad_end (vads ! idx))\<rparr>
             in if pulls = Some 1 then ([seg], [txt], Abandoned)
                else (let (segs, ys, st) =
                            consume vads single (Suc idx) outs err
                              (map_option (\<lambda>k. k - 1) pulls)
                      in (seg # segs, txt # ys, st)))
          else ([], [], Failed IndexError))"

text \<open>
  \<open>transcribe\<close> from the merged VAD segments on (the VAD itself is external). An
  argument the caller leaves out is \<open>None\<close> here and takes the default of the
  signature: \<open>language='vi'\<close>, \<open>task='transcribe'\<close>. A generator that is never asked
  for a value does not run at all.
\<close>

definition transcribe ::
  "(int list \<Rightarrow> int list) \<Rightarrow> real \<Rightarrow> 'a pipeline \<Rightarrow> 'a list \<Rightarrow> vad_segment list \<Rightarrow>
   nat option \<Rightarrow> pyval option \<Rightarrow> pyval option \<Rightarrow> nat option \<Rightarrow> 'a run" where
  "transcribe set_list sample_rate p audio vad_segments batch_size language_arg task_arg pulls =
     (if pulls = Some 0
      then \<lparr>yielded = [], ending = Suspended, after = p, detections = 0\<rparr>
      else
        (let lang = (case language_arg of None \<Rightarrow> PyStr (ascii ''vi'') | Some v \<Rightarrow> v);
             tsk = (case task_arg of None \<Rightarrow> PyStr (ascii ''transcribe'') | Some v \<Rightarrow> v);
             (p1, lang', n) = select_tokenizer p audio lang tsk
         in case override_numerals set_list p1 of
              Inl e \<Rightarrow> \<lparr>yielded = [], ending = Raised e, after = p1, detections = n\<rparr>
            | Inr (p2, previous_suppress_tokens) \<Rightarrow>
                (let bs = (case batch_size of
                             None \<Rightarrow> batch_size_attr p2
                           | Some b \<Rightarrow> if b = 0 then batch_size_attr p2 else Some b);
                     (outs, err) = call_pipeline p2 (data sample_rate audio vad_segments) bs;
                     (segs, ys, st) =
                       consume vad_segments (bs = Some 0 \<or> bs = Some 1 \<or> bs = None) 0
                         outs err pulls
                 in case st of
                      Exhausted \<Rightarrow>
                        \<lparr>yielded = ys,
                         ending = Returned \<lparr>segments = segs, language = lang'\<rparr>,
                         after = revert p2 previous_suppress_tokens, detections = n\<rparr>
                    | Failed e \<Rightarrow>
                        \<lparr>yielded = ys, ending = Raised e, after = p2, detections = n\<rparr>
                    | Abandoned \<Rightarrow>
                        \<lparr>yielded = ys, ending = Suspended, after = p2, detections = n\<rparr>)))"

text \<open>The segment appended for the text \<open>t\<close> at index \<open>i\<close>.\<close>

definition segment_of :: "vad_segment list \<Rightarrow> nat \<Rightarrow> pystr \<Rightarrow> segment" where
  "segment_of vads i t = \<lparr>segment_text = Text t, segment_start = round3 (vad_start (vads ! i)),
      segment_end = round3 (vad_end (vads ! i))\<rparr>"

section \<open>Concrete inputs\<close>

text \<open>
  Two results of \<open>generate\<close> whose token ids are read as the code points they
  decode to: one scores \<open>-3 * 2 / 3 = -2\<close> and is dropped, the other scores
  \<open>-0.3 * 5 / 6 = -0.25\<close> and is kept.
\<close>

definition rejected_result :: generation_result where
  "rejected_result = \<lparr>sequences_ids = [ascii ''hm''], scores = [- 3], no_speech_prob = 0.1\<rparr>"

definition accepted_result :: generation_result where
  "accepted_result =
     \<lparr>sequences_ids = [ascii ''hello''], scores = [- 0.3], no_speech_prob = 0.1\<rparr>"

text \<open>
  A faster-whisper model that scores an input of less than half a second like the
  first result and any other input like the second; its tokens decode to themselves,
  and it hears English.
\<close>

definition example_tokenizer :: "pyval \<Rightarrow> pyval \<Rightarrow> tokenizer" where
  "example_tokenizer tsk lang =
     \<lparr>language_code = lang, task = tsk, eot = 50, decode = (\<lambda>ids. ids)\<rparr>"

definition example_fw :: "real faster_whisper" where
  "example_fw =
     \<lparr>generate = (\<lambda>opts batch.
          map (\<lambda>x. if length x < 8000 then rejected_result else accepted_result) batch),
      new_tokenizer = example_tokenizer,
      language_token = (\<lambda>audio. ascii ''<|en|>'')\<rparr>"

text \<open>
  An openai-whisper model that hears noise in an input of less than half a second
  and \<open>hello\<close> in any other.
\<close>

definition noise_segment :: whisper_segment where
  "noise_segment = \<lparr>seg_text = ascii '' you'', seg_avg_logprob = - 0.4,
     seg_no_speech_prob = 0.9, seg_compression_ratio = 1.5\<rparr>"

definition hello_segment :: whisper_segment where
  "hello_segment = \<lparr>seg_text = ascii '' hello'', seg_avg_logprob = - 0.2,
     seg_no_speech_prob = 0.1, seg_compression_ratio = 1.5\<rparr>"

definition example_whisper :: "transcription_options \<Rightarrow> real list \<Rightarrow> whisper_segment list" where
  "example_whisper opts x = (if length x < 8000 then [noise_segment] else [hello_segment])"

definition example_options :: transcription_options where
  "example_options = \<lparr>beam_size = 5, patience = 1, length_penalty = 1, suppress_tokens = [- 1]\<rparr>"

text \<open>
  A pipeline as \<open>load_model\<close> leaves it around a given model, without a tokenizer
  and without a preset language; one second of silence at 16 kHz; two VAD segments,
  a quarter of a second and half a second long.
\<close>

definition example_pipeline :: "real model \<Rightarrow> real pipeline" where
  "example_pipeline m =
     \<lparr>model = m, tokenizer = None, options = example_options, preset_language = None,
      suppress_numerals = False, batch_size_attr = None,
      vad_model = Pyannote (ascii ''cpu'') default_vad_options,
      vad_params = default_vad_options\<rparr>"

definition example_audio :: "real list" where
  "example_audio = replicate 16000 0"

definition example_segments :: "vad_segment list" where
  "example_segments =
     [\<lparr>vad_start = 0, vad_end = 0.25\<rparr>, \<lparr>vad_start = 0.5, vad_end = 1\<rparr>]"

text \<open>The same pipeline around the openai-whisper model, with a tokenizer and with
  \<open>suppress_numerals\<close> switched on.\<close>

definition numerals_pipeline :: "real pipeline" where
  "numerals_pipeline =
     (example_pipeline (Whisper example_whisper))
       \<lparr>tokenizer := Some (example_tokenizer (PyStr (ascii ''transcribe'')) (PyStr (ascii ''vi''))),
        suppress_numerals := True\<rparr>"

text \<open>That pipeline once the numeral tokens of the example vocabulary are suppressed.\<close>

definition overridden :: "real pipeline" where
  "overridden = numerals_pipeline\<lparr>options := example_options\<lparr>suppress_tokens := [36, 37, 48, 49, - 1]\<rparr>\<rparr>"

text \<open>
  The pipeline around the faster-whisper model, and the same once \<open>transcribe\<close> has
  built its tokenizer for a language.
\<close>

definition fw_pipeline :: "real pipeline" where
  "fw_pipeline = example_pipeline (WhisperModel example_fw)"

definition fw_ready :: "pyval \<Rightarrow> real pipeline" where
  "fw_ready lang = fw_pipeline\<lparr>tokenizer := Some (example_tokenizer (PyStr (ascii ''transcribe'')) lang)\<rparr>"

text \<open>
  Library calls for \<open>load_model\<close>: only the model name \<open>large-v3\<close> is known, only
  the devices \<open>cpu\<close> and \<open>cuda\<close> exist, and nothing else raises.
\<close>

definition example_loader :: "(real, unit) loader" where
  "example_loader =
     \<lparr>whisper_load_model =
        (\<lambda>name. if name = ascii ''large-v3'' then Inr example_whisper else Inl ExternalError),
      auto_tokenizer = Inr (example_tokenizer PyNone PyNone),
      build_options = (\<lambda>m u. Inr (example_options, False)),
      torch_device =
        (\<lambda>d. if d = ascii ''cpu'' \<or> d = ascii ''cuda'' then None else Some ExternalError),
      silero_init = (\<lambda>opts. None),
      pyannote_init = (\<lambda>d opts. None)\<rparr>"

section \<open>Properties of the penalties and the filters\<close>

lemma ascii_eq_Nil_iff [simp]: "ascii s = [] \<longleftrightarrow> s = []"
  by (simp add: ascii_def)

lemma starts_with_iff: "starts_with s t \<longleftrightarrow> (\<exists>q. t = s @ q)"
  by (induction s t rule: starts_with.induct) auto

lemma py_in_iff: "py_in s t \<longleftrightarrow> (\<exists>p q. t = p @ s @ q)"
proof (induction t)
  case Nil
  then show ?case by simp
next
  case (Cons d t)
  have "(\<exists>p q. d # t = p @ s @ q) \<longleftrightarrow> (\<exists>q. d # t = s @ q) \<or> (\<exists>p q. t = p @ s @ q)"
  proof
    assume "\<exists>p q. d # t = p @ s @ q"
    then obtain p q where pq: "d # t = p @ s @ q" by blast
    show "(\<exists>q. d # t = s @ q) \<or> (\<exists>p q. t = p @ s @ q)"
    proof (cases p)
      case Nil
      with pq show ?thesis by auto
    next
      case (Cons a p')
      with pq have "t = p' @ s @ q" by simp
      then show ?thesis by blast
    qed
  next
    assume "(\<exists>q. d # t = s @ q) \<or> (\<exists>p q. t = p @ s @ q)"
    then show "\<exists>p q. d # t = p @ s @ q"
    proof
      assume "\<exists>q. d # t = s @ q"
      then obtain q where "d # t = [] @ s @ q" by auto
      then show ?thesis by blast
    next
      assume "\<exists>p q. t = p @ s @ q"
      then obtain p q where "d # t = (d # p) @ s @ q" by auto
      then show ?thesis by blast
    qed
  qed
  with Cons show ?case by (simp add: starts_with_iff)
qed

lemma penalise_eq: "penalise p phrases t avg = avg - p * real (matches phrases t)"
  unfolding penalise_def matches_def
  by (induction phrases arbitrary: avg) (simp_all add: algebra_simps)

lemma penalise_le: "0 \<le> p \<Longrightarrow> penalise p phrases t avg \<le> avg"
  by (simp add: penalise_eq)

lemma penalties_batched_le: "penalties_batched t avg \<le> avg"
  unfolding penalties_batched_def
  by (rule order_trans [OF penalise_le penalise_le]) simp_all

lemma penalties_whisper_le: "penalties_whisper t avg \<le> avg"
  unfolding penalties_whisper_def
  by (rule order_trans [OF penalise_le penalise_le]) simp_all

lemma penalties_batched_eq:
  "penalties_batched t avg =
     avg - 0.15 * real (matches suppress_low_batched t)
         - 0.35 * real (matches suppress_high_batched t)"
  by (simp add: penalties_batched_def penalise_eq)

lemma penalties_whisper_eq:
  "penalties_whisper t avg =
     avg - 0.15 * real (matches suppress_low_whisper t)
         - 0.35 * real (matches suppress_high_whisper t)"
  by (simp add: penalties_whisper_def penalise_eq)

lemma matches_thank_you_whisper:
  "matches suppress_low_whisper (ascii ''Thank you'') = 0"
  "matches suppress_high_whisper (ascii ''Thank you'') = 0"
  by (simp_all add: matches_def suppress_low_whisper_def suppress_high_whisper_def ascii_def)

lemma matches_thank_you_batched:
  "matches suppress_low_batched (ascii ''Thank you'') = 1"
  "matches suppress_high_batched (ascii ''Thank you'') = 0"
  by (simp_all add: matches_def suppress_low_batched_def suppress_high_batched_def ascii_def)

lemma matches_hello:
  "matches suppress_low_whisper (ascii ''hello'') = 0"
  "matches suppress_high_whisper (ascii ''hello'') = 0"
  by (simp_all add: matches_def suppress_low_whisper_def suppress_high_whisper_def ascii_def)

lemma strip_hello: "strip (ascii ''hello'') = ascii ''hello''"
  by (simp add: strip_def ascii_def isspace_def)

lemma strip_thank_you: "strip (ascii ''Thank you'') = ascii ''Thank you''"
  by (simp add: strip_def ascii_def isspace_def)

lemma matches_hello_batched:
  "matches suppress_low_batched (ascii ''hello'') = 0"
  "matches suppress_high_batched (ascii ''hello'') = 0"
  by (simp_all add: matches_def suppress_low_batched_def suppress_high_batched_def ascii_def)

lemma matches_empty_batched:
  "matches suppress_low_batched [] = 0"
  "matches suppress_high_batched [] = 0"
  by (simp_all add: matches_def suppress_low_batched_def suppress_high_batched_def ascii_def)

lemma concat_keep_whisper:
  "concat (map keep_whisper result) =
     map seg_text (filter (\<lambda>r. \<not> ((penalties_whisper (seg_text r) (seg_avg_logprob r) < - 0.5
             \<and> (seg_compression_ratio r < 1 \<or> seg_compression_ratio r > 2))
           \<or> seg_no_speech_prob r > 0.7
           \<or> strip (seg_text r) = [])) result)"
  by (induction result) (auto simp: keep_whisper_def Let_def)

lemma filter_results_texts:
  "filter_results dec lp rs = Inr out \<Longrightarrow>
   map kept_text out =
     concat (map (\<lambda>r. case score_and_text dec lp r of
                          Inl e \<Rightarrow> []
                        | Inr (avg, t) \<Rightarrow>
                            if penalties_batched t avg < - 1.0 \<or> no_speech_prob r > 0.7
                            then [] else [t]) rs)"
proof (induction rs arbitrary: out)
  case Nil
  then show ?case by simp
next
  case (Cons r rs)
  then show ?case
    by (auto simp: keep_batched_def Let_def split: sum.splits prod.splits if_splits)
qed

lemma score_rejected_result:
  "score_and_text (\<lambda>ids. ids) 1 rejected_result = Inr (- 2, ascii ''hm'')"
  by (simp add: score_and_text_def rejected_result_def first_def py_pow_def ascii_def)

lemma score_accepted_result:
  "score_and_text (\<lambda>ids. ids) 1 accepted_result = Inr (- 0.25, ascii ''hello'')"
  by (simp add: score_and_text_def accepted_result_def first_def py_pow_def ascii_def)

lemma no_speech_prob_results:
  "no_speech_prob rejected_result = 0.1" "no_speech_prob accepted_result = 0.1"
  by (simp_all add: rejected_result_def accepted_result_def)

lemma keep_batched_below: "avg < - 1 \<Longrightarrow> keep_batched avg nsp t = []"
  using penalties_batched_le [of t avg] by (simp add: keep_batched_def Let_def)

lemma keep_batched_hello:
  "keep_batched (- 0.25) 0.1 (ascii ''hello'') =
     [\<lparr>avg_logprob = - 0.25, kept_no_speech_prob = 0.1, kept_text = ascii ''hello''\<rparr>]"
  by (simp add: keep_batched_def Let_def penalties_batched_eq matches_hello_batched)

lemma filter_results_rejected:
  "filter_results (\<lambda>ids. ids) 1 [rejected_result] = Inr []"
  by (simp add: score_rejected_result no_speech_prob_results keep_batched_below)

lemma filter_results_accepted:
  "filter_results (\<lambda>ids. ids) 1 [accepted_result] =
     Inr [\<lparr>avg_logprob = - 0.25, kept_no_speech_prob = 0.1, kept_text = ascii ''hello''\<rparr>]"
  using keep_batched_hello
  by (simp add: score_accepted_result no_speech_prob_results)

lemma filter_results_both:
  "filter_results (\<lambda>ids. ids) 1 [rejected_result, accepted_result] =
     Inr [\<lparr>avg_logprob = - 0.25, kept_no_speech_prob = 0.1, kept_text = ascii ''hello''\<rparr>]"
  using keep_batched_hello
  by (simp add: score_rejected_result score_accepted_result no_speech_prob_results
      keep_batched_below)

lemma generate_segment_batched_examples:
  "generate_segment_batched (\<lambda>ids. ids) 1 [rejected_result] = Inr []"
  "generate_segment_batched (\<lambda>ids. ids) 1 [accepted_result] = Inr [ascii ''hello'']"
  "generate_segment_batched (\<lambda>ids. ids) 1 [rejected_result, accepted_result] =
     Inr [ascii ''hello'']"
  by (simp_all only: generate_segment_batched_def filter_results_rejected
      filter_results_accepted filter_results_both sum.case list.map kept_candidate.select_convs)

section \<open>The confidence filter\<close>

text \<open>
  C1 (as amended). No branch applies the full disjunction; each filtering branch has
  its own test. In \<open>generate_segment_batched\<close> a candidate is dropped exactly when its
  penalised score is below \<open>-1.0\<close> or its no-speech probability is above \<open>0.7\<close>, and
  the returned texts are those of the candidates that are not dropped, in order. In
  the openai-whisper branch of \<open>_forward\<close> a segment is dropped exactly when its
  penalised score is below \<open>-0.5\<close> with a compression ratio below 1 or above 2, or its
  no-speech probability is above \<open>0.7\<close>, or its text is empty once trimmed, and the
  output is built from the texts of the segments that are not dropped.
\<close>

theorem confidence_filter_per_branch:
  "(keep_batched avg nsp t = []) = (penalties_batched t avg < - 1.0 \<or> nsp > 0.7)
   \<and> (keep_whisper r = []) =
       ((penalties_whisper (seg_text r) (seg_avg_logprob r) < - 0.5
           \<and> (seg_compression_ratio r < 1 \<or> seg_compression_ratio r > 2))
        \<or> seg_no_speech_prob r > 0.7
        \<or> strip (seg_text r) = [])
   \<and> (generate_segment_batched dec lp rs = Inr texts \<longrightarrow>
        texts = concat (map (\<lambda>r. case score_and_text dec lp r of
                          Inl e \<Rightarrow> []
                        | Inr (avg, t) \<Rightarrow>
                            if penalties_batched t avg < - 1.0 \<or> no_speech_prob r > 0.7
                            then [] else [t]) rs))
   \<and> whisper_output result =
       join (ascii '' '') (split (join (ascii '' '')
         (map seg_text (filter (\<lambda>r. \<not> ((penalties_whisper (seg_text r) (seg_avg_logprob r) < - 0.5
             \<and> (seg_compression_ratio r < 1 \<or> seg_compression_ratio r > 2))
           \<or> seg_no_speech_prob r > 0.7
           \<or> strip (seg_text r) = [])) result))))"
proof (intro conjI impI)
  show "(keep_batched avg nsp t = []) = (penalties_batched t avg < - 1.0 \<or> nsp > 0.7)"
    by (simp add: keep_batched_def Let_def)
  show "(keep_whisper r = []) =
       ((penalties_whisper (seg_text r) (seg_avg_logprob r) < - 0.5
           \<and> (seg_compression_ratio r < 1 \<or> seg_compression_ratio r > 2))
        \<or> seg_no_speech_prob r > 0.7
        \<or> strip (seg_text r) = [])"
    by (auto simp: keep_whisper_def Let_def)
  show "whisper_output result =
       join (ascii '' '') (split (join (ascii '' '')
         (map seg_text (filter (\<lambda>r. \<not> ((penalties_whisper (seg_text r) (seg_avg_logprob r) < - 0.5
             \<and> (seg_compression_ratio r < 1 \<or> seg_compression_ratio r > 2))
           \<or> seg_no_speech_prob r > 0.7
           \<or> strip (seg_text r) = [])) result))))"
    by (simp only: whisper_output_def concat_keep_whisper)
next
  assume "generate_segment_batched dec lp rs = Inr texts"
  then obtain out where o: "filter_results dec lp rs = Inr out" and t: "texts = map kept_text out"
    by (auto simp: generate_segment_batched_def split: sum.splits)
  from filter_results_texts [OF o] t
  show "texts = concat (map (\<lambda>r. case score_and_text dec lp r of
                          Inl e \<Rightarrow> []
                        | Inr (avg, t) \<Rightarrow>
                            if penalties_batched t avg < - 1.0 \<or> no_speech_prob r > 0.7
                            then [] else [t]) rs)"
    by simp
qed

theorem confidence_filter_per_branch_witness:
  "generate_segment_batched (\<lambda>ids. ids) 1 [rejected_result, accepted_result]
     = Inr [ascii ''hello'']
   \<and> [ascii ''hello''] =
       concat (map (\<lambda>r. case score_and_text (\<lambda>ids. ids) 1 r of
                          Inl e \<Rightarrow> []
                        | Inr (avg, t) \<Rightarrow>
                            if penalties_batched t avg < - 1.0 \<or> no_speech_prob r > 0.7
                            then [] else [t]) [rejected_result, accepted_result])"
  using confidence_filter_per_branch
    [where dec = "\<lambda>ids. ids" and lp = 1 and rs = "[rejected_result, accepted_result]"
       and texts = "[ascii ''hello'']"]
    generate_segment_batched_examples(3)
  by blast

text \<open>
  C1 fails as stated. In the openai-whisper branch a segment with a score of \<open>-1.5\<close>
  (below \<open>-1.0\<close>), a compression ratio of 1.5 and a text is kept; in
  \<open>generate_segment_batched\<close> a candidate with an empty text is kept.
\<close>

theorem confidence_filter_counterexample:
  "keep_whisper \<lparr>seg_text = ascii ''hello'', seg_avg_logprob = - 1.5,
       seg_no_speech_prob = 0.1, seg_compression_ratio = 1.5\<rparr> = [ascii ''hello'']
   \<and> penalties_whisper (ascii ''hello'') (- 1.5) < - 1.0
   \<and> keep_batched 0 0 [] \<noteq> [] \<and> strip [] = []"
proof -
  have "keep_batched 0 0 [] \<noteq> []"
    by (simp add: keep_batched_def penalties_batched_eq matches_empty_batched Let_def)
  moreover have "strip [] = []" by (simp add: strip_def)
  moreover have "keep_whisper \<lparr>seg_text = ascii ''hello'', seg_avg_logprob = - 1.5,
       seg_no_speech_prob = 0.1, seg_compression_ratio = 1.5\<rparr> = [ascii ''hello'']"
    by (simp add: keep_whisper_def penalties_whisper_eq matches_hello strip_hello Let_def)
  moreover have "penalties_whisper (ascii ''hello'') (- 1.5) < - 1.0"
    by (simp add: penalties_whisper_eq matches_hello)
  ultimately show ?thesis by blast
qed

section \<open>The phrase penalties\<close>

text \<open>
  C4 (as amended). At each of the two call sites the penalty step subtracts 0.15 for
  each phrase of that site's low-severity list that occurs in the text and 0.35 for
  each phrase of its high-severity list that occurs in it. A phrase occurs when the
  text is some prefix, the phrase itself, and some suffix: code points are compared
  as they are. No list repeats a phrase, so a phrase counts once however often it
  occurs. The two call sites carry different lists: the low-severity list of
  \<open>generate_segment_batched\<close> is that of the openai-whisper branch with
  \<open>Thank you\<close> in front, and the high-severity lists share their first seven
  phrases and go on with eight and with four phrases of their own.
\<close>

theorem phrase_penalties_per_call_site:
  "penalties_batched t avg =
     avg - 0.15 * real (length (filter (\<lambda>s. py_in s t) suppress_low_batched))
         - 0.35 * real (length (filter (\<lambda>s. py_in s t) suppress_high_batched))
   \<and> penalties_whisper t avg =
     avg - 0.15 * real (length (filter (\<lambda>s. py_in s t) suppress_low_whisper))
         - 0.35 * real (length (filter (\<lambda>s. py_in s t) suppress_high_whisper))
   \<and> distinct suppress_low_batched \<and> distinct suppress_high_batched
   \<and> distinct suppress_low_whisper \<and> distinct suppress_high_whisper
   \<and> py_in s t = (\<exists>p q. t = p @ s @ q)
   \<and> suppress_low_batched = ascii ''Thank you'' # suppress_low_whisper
   \<and> take 7 suppress_high_batched = take 7 suppress_high_whisper
   \<and> length suppress_high_batched = 15 \<and> length suppress_high_whisper = 11"
proof (intro conjI)
  show "penalties_batched t avg =
     avg - 0.15 * real (length (filter (\<lambda>s. py_in s t) suppress_low_batched))
         - 0.35 * real (length (filter (\<lambda>s. py_in s t) suppress_high_batched))"
    by (simp add: penalties_batched_eq matches_def)
  show "penalties_whisper t avg =
     avg - 0.15 * real (length (filter (\<lambda>s. py_in s t) suppress_low_whisper))
         - 0.35 * real (length (filter (\<lambda>s. py_in s t) suppress_high_whisper))"
    by (simp add: penalties_whisper_eq matches_def)
  show "distinct suppress_low_batched"
    by (simp add: suppress_low_batched_def ascii_def)
  show "distinct suppress_high_batched"
    by (simp add: suppress_high_batched_def ascii_def)
  show "distinct suppress_low_whisper"
    by (simp add: suppress_low_whisper_def ascii_def)
  show "distinct suppress_high_whisper"
    by (simp add: suppress_high_whisper_def ascii_def)
  show "py_in s t = (\<exists>p q. t = p @ s @ q)"
    by (rule py_in_iff)
  show "suppress_low_batched = ascii ''Thank you'' # suppress_low_whisper"
    by (simp add: suppress_low_batched_def suppress_low_whisper_def)
  show "take 7 suppress_high_batched = take 7 suppress_high_whisper"
    by (simp add: suppress_high_batched_def suppress_high_whisper_def)
  show "length suppress_high_batched = 15"
    by (simp add: suppress_high_batched_def)
  show "length suppress_high_whisper = 11"
    by (simp add: suppress_high_whisper_def)
qed

text \<open>
  C4 fails as stated: the lists are not the same at the two call sites. The text
  \<open>Thank you\<close> costs 0.15 in \<open>generate_segment_batched\<close> and nothing in the
  openai-whisper branch, whose low-severity list does not hold that phrase.
\<close>

theorem phrase_lists_differ_counterexample:
  "penalties_batched (ascii ''Thank you'') 0 = - 0.15
   \<and> penalties_whisper (ascii ''Thank you'') 0 = 0"
  by (simp add: penalties_batched_eq penalties_whisper_eq matches_thank_you_batched
      matches_thank_you_whisper)

section \<open>A score below the threshold\<close>

text \<open>
  C5 (as amended). A candidate with a score of \<open>-1.5\<close> and a no-speech probability
  of \<open>0.1\<close> is dropped by \<open>generate_segment_batched\<close> whatever its text. The
  openai-whisper branch has no \<open>-1.0\<close> threshold: it drops such a segment exactly when
  its compression ratio is below 1 or above 2 or its text is empty once trimmed.
\<close>

theorem low_score_rejection:
  "keep_batched (- 1.5) 0.1 t = []
   \<and> (keep_whisper \<lparr>seg_text = t, seg_avg_logprob = - 1.5, seg_no_speech_prob = 0.1,
         seg_compression_ratio = cr\<rparr> = []) = (cr < 1 \<or> cr > 2 \<or> strip t = [])"
proof -
  have w: "penalties_whisper t (- 1.5) \<le> - 1.5" by (rule penalties_whisper_le)
  have "keep_batched (- 1.5) 0.1 t = []"
    by (rule keep_batched_below) simp
  moreover from w have "(keep_whisper \<lparr>seg_text = t, seg_avg_logprob = - 1.5,
         seg_no_speech_prob = 0.1, seg_compression_ratio = cr\<rparr> = [])
       = (cr < 1 \<or> cr > 2 \<or> strip t = [])"
    by (auto simp add: keep_whisper_def Let_def)
  ultimately show ?thesis by blast
qed

text \<open>
  C5 fails as stated: the openai-whisper branch keeps a segment with a score of
  \<open>-1.5\<close>, a no-speech probability of \<open>0.1\<close> and a compression ratio of 1.5.
\<close>

theorem low_score_counterexample:
  "keep_whisper \<lparr>seg_text = ascii ''hello'', seg_avg_logprob = - 1.5,
       seg_no_speech_prob = 0.1, seg_compression_ratio = 1.5\<rparr> \<noteq> []"
  by (simp add: keep_whisper_def penalties_whisper_eq matches_hello strip_hello Let_def)

section \<open>A rejection caused by a penalty\<close>

lemma strip_eq_Nil_iff: "strip s = [] \<longleftrightarrow> (\<forall>c \<in> set s. isspace c)"
proof
  assume "strip s = []"
  then have a: "dropWhile isspace (rev (dropWhile isspace s)) = []"
    by (simp add: strip_def)
  show "\<forall>c \<in> set s. isspace c"
  proof (cases "dropWhile isspace s")
    case Nil
    then show ?thesis by (simp add: dropWhile_eq_Nil_conv)
  next
    case (Cons c r)
    then have "\<not> isspace c"
      using hd_dropWhile [of isspace s] by simp
    moreover from a Cons have "isspace c"
      by (simp add: dropWhile_eq_Nil_conv)
    ultimately show ?thesis by simp
  qed
next
  assume "\<forall>c \<in> set s. isspace c"
  then have d: "dropWhile isspace s = []" by (simp add: dropWhile_eq_Nil_conv)
  show "strip s = []" unfolding strip_def d by simp
qed

lemma strip_thank_you_text:
  assumes "py_in (ascii ''Thank you'') t"
  shows "strip t \<noteq> []"
proof -
  from assms obtain p q where "t = p @ ascii ''Thank you'' @ q"
    by (auto simp: py_in_iff)
  then have "84 \<in> set t" by (simp add: ascii_def)
  moreover have "\<not> isspace 84" by (simp add: isspace_def)
  ultimately show ?thesis by (auto simp: strip_eq_Nil_iff)
qed


text \<open>
  C6 (as amended). In \<open>generate_segment_batched\<close>, a candidate whose text holds
  \<open>Thank you\<close> and no other phrase of that call site's lists, with a score of \<open>-0.9\<close>,
  gets the score \<open>-1.05\<close> and is dropped. The openai-whisper branch does not list
  \<open>Thank you\<close> and has no \<open>-1.0\<close> threshold: there a text that holds \<open>Thank you\<close>
  and no phrase of that call site's lists keeps the score \<open>-0.9\<close> and the segment is
  kept, when its no-speech probability is at most \<open>0.7\<close> and its compression ratio
  is between 1 and 2.
\<close>

theorem thank_you_penalty:
  "(filter (\<lambda>s. py_in s t) suppress_low_batched = [ascii ''Thank you'']
      \<and> filter (\<lambda>s. py_in s t) suppress_high_batched = []
    \<longrightarrow> penalties_batched t (- 0.9) = - 1.05 \<and> keep_batched (- 0.9) nsp t = [])
   \<and> (py_in (ascii ''Thank you'') t
      \<and> filter (\<lambda>s. py_in s t) suppress_low_whisper = []
      \<and> filter (\<lambda>s. py_in s t) suppress_high_whisper = []
      \<and> nsp \<le> 0.7 \<and> 1 \<le> cr \<and> cr \<le> 2
    \<longrightarrow> penalties_whisper t (- 0.9) = - 0.9
        \<and> keep_whisper \<lparr>seg_text = t, seg_avg_logprob = - 0.9, seg_no_speech_prob = nsp,
             seg_compression_ratio = cr\<rparr> = [t])"
proof (intro conjI impI)
  assume a: "filter (\<lambda>s. py_in s t) suppress_low_batched = [ascii ''Thank you'']
      \<and> filter (\<lambda>s. py_in s t) suppress_high_batched = []"
  then show b: "penalties_batched t (- 0.9) = - 1.05"
    by (simp add: penalties_batched_eq matches_def)
  then show "keep_batched (- 0.9) nsp t = []"
    by (simp add: keep_batched_def Let_def)
next
  assume a: "py_in (ascii ''Thank you'') t
      \<and> filter (\<lambda>s. py_in s t) suppress_low_whisper = []
      \<and> filter (\<lambda>s. py_in s t) suppress_high_whisper = []
      \<and> nsp \<le> 0.7 \<and> 1 \<le> cr \<and> cr \<le> 2"
  then show b: "penalties_whisper t (- 0.9) = - 0.9"
    by (simp add: penalties_whisper_eq matches_def)
  from a have "strip t \<noteq> []" by (simp add: strip_thank_you_text)
  with a b show "keep_whisper \<lparr>seg_text = t, seg_avg_logprob = - 0.9, seg_no_speech_prob = nsp,
             seg_compression_ratio = cr\<rparr> = [t]"
    by (simp add: keep_whisper_def Let_def)
qed

theorem thank_you_penalty_witness:
  "filter (\<lambda>s. py_in s (ascii ''Thank you'')) suppress_low_batched = [ascii ''Thank you'']
   \<and> filter (\<lambda>s. py_in s (ascii ''Thank you'')) suppress_high_batched = []
   \<and> penalties_batched (ascii ''Thank you'') (- 0.9) = - 1.05
   \<and> keep_batched (- 0.9) 0.1 (ascii ''Thank you'') = []
   \<and> py_in (ascii ''Thank you'') (ascii ''Thank you'')
   \<and> filter (\<lambda>s. py_in s (ascii ''Thank you'')) suppress_low_whisper = []
   \<and> filter (\<lambda>s. py_in s (ascii ''Thank you'')) suppress_high_whisper = []
   \<and> penalties_whisper (ascii ''Thank you'') (- 0.9) = - 0.9
   \<and> keep_whisper \<lparr>seg_text = ascii ''Thank you'', seg_avg_logprob = - 0.9,
         seg_no_speech_prob = 0.1, seg_compression_ratio = 1.5\<rparr> = [ascii ''Thank you'']"
proof -
  have a: "filter (\<lambda>s. py_in s (ascii ''Thank you'')) suppress_low_batched
             = [ascii ''Thank you'']"
    by (simp add: suppress_low_batched_def ascii_def)
  have b: "filter (\<lambda>s. py_in s (ascii ''Thank you'')) suppress_high_batched = []"
    by (simp add: suppress_high_batched_def ascii_def)
  have c: "py_in (ascii ''Thank you'') (ascii ''Thank you'')"
    by (simp add: ascii_def)
  have d: "filter (\<lambda>s. py_in s (ascii ''Thank you'')) suppress_low_whisper = []"
    by (simp add: suppress_low_whisper_def ascii_def)
  have e: "filter (\<lambda>s. py_in s (ascii ''Thank you'')) suppress_high_whisper = []"
    by (simp add: suppress_high_whisper_def ascii_def)
  have f: "(0.1::real) \<le> 0.7 \<and> (1::real) \<le> 1.5 \<and> (1.5::real) \<le> 2" by simp
  from thank_you_penalty [of "ascii ''Thank you''" "0.1" "1.5"] a b c d e f
  show ?thesis by blast
qed

text \<open>
  C6 fails as stated: in the openai-whisper branch the text \<open>Thank you\<close> with a score
  of \<open>-0.9\<close>, a no-speech probability of \<open>0.1\<close> and a compression ratio of 1.5 keeps
  its score and is kept.
\<close>

theorem thank_you_counterexample:
  "py_in (ascii ''Thank you'') (ascii ''Thank you'')
   \<and> penalties_whisper (ascii ''Thank you'') (- 0.9) = - 0.9
   \<and> keep_whisper \<lparr>seg_text = ascii ''Thank you'', seg_avg_logprob = - 0.9,
       seg_no_speech_prob = 0.1, seg_compression_ratio = 1.5\<rparr> = [ascii ''Thank you'']"
proof -
  have "py_in (ascii ''Thank you'') (ascii ''Thank you'')"
    by (simp add: ascii_def)
  moreover have "penalties_whisper (ascii ''Thank you'') (- 0.9) = - 0.9"
    by (simp add: penalties_whisper_eq matches_thank_you_whisper)
  moreover have "keep_whisper \<lparr>seg_text = ascii ''Thank you'', seg_avg_logprob = - 0.9,
       seg_no_speech_prob = 0.1, seg_compression_ratio = 1.5\<rparr> = [ascii ''Thank you'']"
    by (simp add: keep_whisper_def penalties_whisper_eq matches_thank_you_whisper
        strip_thank_you Let_def)
  ultimately show ?thesis by blast
qed

section \<open>Batching, unbatching and the loop\<close>

lemma batches_Nil: "batches n [] = []"
  by (simp add: batches.simps)

lemma batches_step: "0 < n \<Longrightarrow> xs \<noteq> [] \<Longrightarrow> batches n xs = take n xs # batches n (drop n xs)"
  by (subst batches.simps) simp

lemma batches_one: "batches (Suc 0) xs = map (\<lambda>x. [x]) xs"
proof (induction xs)
  case Nil
  show ?case by (simp add: batches_Nil)
next
  case (Cons x xs)
  then show ?case by (simp add: batches_step)
qed

lemma concat_batches: "0 < n \<Longrightarrow> concat (batches n xs) = xs"
proof (induction n xs rule: batches.induct)
  case (1 n xs)
  show ?case
  proof (cases "xs = []")
    case True
    then show ?thesis by (simp add: batches_Nil)
  next
    case False
    with 1 show ?thesis by (simp add: batches_step)
  qed
qed

lemma whole_map: "whole (map (\<lambda>b. Inr (g b)) bs) = (map (\<lambda>b. Texts (g b)) bs, None)"
  by (induction bs) simp_all

lemma unbatch_batches:
  "0 < n \<Longrightarrow>
   unbatch n (map (\<lambda>b. Inr (map g b)) (batches n xs)) = (map (\<lambda>x. Text (g x)) xs, None)"
proof (induction n xs rule: batches.induct)
  case (1 n xs)
  show ?case
  proof (cases "xs = []")
    case True
    then show ?thesis by (simp add: batches_Nil)
  next
    case False
    note ne = this
    show ?thesis
    proof (cases "length xs < n")
      case True
      then have d: "drop n xs = []" and t: "take n xs = xs" by simp_all
      from ne True show ?thesis
        by (simp add: batches_step [OF 1(2) ne] d t batches_Nil Let_def)
    next
      case False
      then have l: "length (take n xs) = n" by simp
      have ih: "unbatch n (map (\<lambda>b. Inr (map g b)) (batches n (drop n xs)))
                  = (map (\<lambda>x. Text (g x)) (drop n xs), None)"
        using 1 ne by simp
      have "map (\<lambda>x. Text (g x)) (take n xs) @ map (\<lambda>x. Text (g x)) (drop n xs)
              = map (\<lambda>x. Text (g x)) xs"
        by (simp only: map_append [symmetric] append_take_drop_id)
      then show ?thesis
        using False 1(2) by (simp add: batches_step [OF 1(2) ne] l ih Let_def take_map comp_def)
    qed
  qed
qed

lemma consume_texts:
  "idx + length ts \<le> length vads \<Longrightarrow>
   consume vads False idx (map Text ts) None None =
     (map (\<lambda>(i, t). segment_of vads i t) (zip [idx..<idx + length ts] ts), map Text ts, Exhausted)"
proof (induction ts arbitrary: idx)
  case Nil
  then show ?case by simp
next
  case (Cons t ts)
  then have "Suc idx + length ts \<le> length vads" by simp
  from Cons.IH [OF this] Cons.prems show ?case
    by (simp add: upt_conv_Cons segment_of_def del: upt_Suc)
qed

lemma consume_singletons:
  "idx + length ts \<le> length vads \<Longrightarrow>
   consume vads True idx (map (\<lambda>t. Texts [t]) ts) None None =
     (map (\<lambda>(i, t). segment_of vads i t) (zip [idx..<idx + length ts] ts), map Text ts, Exhausted)"
proof (induction ts arbitrary: idx)
  case Nil
  then show ?case by simp
next
  case (Cons t ts)
  then have "Suc idx + length ts \<le> length vads" by simp
  from Cons.IH [OF this] Cons.prems show ?case
    by (simp add: upt_conv_Cons segment_of_def index0_def del: upt_Suc)
qed

lemma forward_whisper:
  "model p = Whisper f \<Longrightarrow>
   forward p xs = Inr (map (\<lambda>x. whisper_output (f (options p) x)) xs)"
  by (simp add: forward_def)

lemma call_pipeline_whisper_one:
  assumes "model p = Whisper f"
  shows "call_pipeline p inputs (Some (Suc 0)) =
     (map (\<lambda>x. Texts [whisper_output (f (options p) x)]) inputs, None)"
proof -
  have fw: "forward p = (\<lambda>b. Inr (map (\<lambda>x. whisper_output (f (options p) x)) b))"
    by (rule ext) (simp add: forward_whisper [OF assms])
  show ?thesis
    unfolding call_pipeline_def fw
    by (simp add: whole_map batches_one comp_def)
qed

lemma call_pipeline_whisper_many:
  assumes "model p = Whisper f" "1 < n"
  shows "call_pipeline p inputs (Some n) =
     (map (\<lambda>x. Text (whisper_output (f (options p) x))) inputs, None)"
proof -
  have fw: "forward p = (\<lambda>b. Inr (map (\<lambda>x. whisper_output (f (options p) x)) b))"
    by (rule ext) (simp add: forward_whisper [OF assms(1)])
  from assms(2) show ?thesis
    unfolding call_pipeline_def fw
    by (simp add: unbatch_batches)
qed

section \<open>The stages of transcribe\<close>

lemma select_tokenizer_frame:
  assumes "select_tokenizer p audio lang tsk = (p1, lang', n)"
  shows "options p1 = options p" "suppress_numerals p1 = suppress_numerals p"
    "preset_language p1 = preset_language p" "model p1 = model p"
    "batch_size_attr p1 = batch_size_attr p"
  using assms
  by (auto simp: select_tokenizer_def Let_def split: model.splits option.splits if_splits)

lemma select_tokenizer_language:
  assumes "select_tokenizer p audio lang tsk = (p1, lang', n)"
  shows "truthy lang \<Longrightarrow> lang' = lang \<and> n = 0"
    and "n \<noteq> 0 \<Longrightarrow> \<not> truthy lang \<and> (\<exists>fw. model p = WhisperModel fw) \<and> tokenizer p = None"
    and "n = (if \<not> truthy lang \<and> (\<exists>fw. model p = WhisperModel fw) \<and> tokenizer p = None then 1 else 0)"
  using assms
  by (auto simp: select_tokenizer_def Let_def py_or_def split: model.splits option.splits if_splits)

lemma override_numerals_frame:
  assumes "override_numerals set_list p1 = Inr (p2, prev)"
  shows "options p2 = (options p1)\<lparr>suppress_tokens := suppress_tokens (options p2)\<rparr>"
    and "suppress_numerals p2 = suppress_numerals p1"
    and "suppress_numerals p1 \<Longrightarrow> prev = suppress_tokens (options p1)"
    and "\<not> suppress_numerals p1 \<Longrightarrow> p2 = p1"
  using assms
  by (auto simp: override_numerals_def Let_def split: option.splits if_splits)

lemma revert_options:
  "options (revert p2 prev) =
     (if suppress_numerals p2 then (options p2)\<lparr>suppress_tokens := prev\<rparr> else options p2)"
  by (simp add: revert_def Let_def)

lemma transcribe_cases:
  obtains
    (idle) "pulls = Some 0"
      "transcribe set_list sr p audio vads bs la ta pulls =
         \<lparr>yielded = [], ending = Suspended, after = p, detections = 0\<rparr>"
  | (early) p1 lang' n e where
      "select_tokenizer p audio (case la of None \<Rightarrow> PyStr (ascii ''vi'') | Some v \<Rightarrow> v)
         (case ta of None \<Rightarrow> PyStr (ascii ''transcribe'') | Some v \<Rightarrow> v) = (p1, lang', n)"
      "override_numerals set_list p1 = Inl e"
      "transcribe set_list sr p audio vads bs la ta pulls =
         \<lparr>yielded = [], ending = Raised e, after = p1, detections = n\<rparr>"
  | (looped) p1 lang' n p2 prev ys segs st where
      "select_tokenizer p audio (case la of None \<Rightarrow> PyStr (ascii ''vi'') | Some v \<Rightarrow> v)
         (case ta of None \<Rightarrow> PyStr (ascii ''transcribe'') | Some v \<Rightarrow> v) = (p1, lang', n)"
      "override_numerals set_list p1 = Inr (p2, prev)"
      "transcribe set_list sr p audio vads bs la ta pulls =
         \<lparr>yielded = ys,
          ending = (case st of Exhausted \<Rightarrow> Returned \<lparr>segments = segs, language = lang'\<rparr>
                    | Failed e \<Rightarrow> Raised e | Abandoned \<Rightarrow> Suspended),
          after = (case st of Exhausted \<Rightarrow> revert p2 prev | _ \<Rightarrow> p2),
          detections = n\<rparr>"
proof (cases "pulls = Some 0")
  case True
  then show ?thesis by (intro idle) (simp_all add: transcribe_def)
next
  case False
  obtain p1 lang' n where s: "select_tokenizer p audio (case la of None \<Rightarrow> PyStr (ascii ''vi'') | Some v \<Rightarrow> v)
         (case ta of None \<Rightarrow> PyStr (ascii ''transcribe'') | Some v \<Rightarrow> v) = (p1, lang', n)"
    by (metis prod_cases3)
  show ?thesis
  proof (cases "override_numerals set_list p1")
    case (Inl e)
    with False s show ?thesis by (intro early [of p1 lang' n e]) (simp_all add: transcribe_def)
  next
    case (Inr a)
    then obtain p2 prev where o: "override_numerals set_list p1 = Inr (p2, prev)"
      by (cases a) simp
    define b where "b = (case bs of None \<Rightarrow> batch_size_attr p2
                           | Some b \<Rightarrow> if b = 0 then batch_size_attr p2 else Some b)"
    obtain outs err where c: "call_pipeline p2 (data sr audio vads) b = (outs, err)"
      by (cases "call_pipeline p2 (data sr audio vads) b")
    obtain segs ys st where
      l: "consume vads (b = Some 0 \<or> b = Some 1 \<or> b = None) 0 outs err pulls = (segs, ys, st)"
      by (metis prod_cases3)
    have "transcribe set_list sr p audio vads bs la ta pulls =
         \<lparr>yielded = ys,
          ending = (case st of Exhausted \<Rightarrow> Returned \<lparr>segments = segs, language = lang'\<rparr>
                    | Failed e \<Rightarrow> Raised e | Abandoned \<Rightarrow> Suspended),
          after = (case st of Exhausted \<Rightarrow> revert p2 prev | _ \<Rightarrow> p2),
          detections = n\<rparr>"
      using False s o c l
      by (simp add: transcribe_def Let_def b_def [symmetric] split: stop.splits)
    with s o show ?thesis by (rule looped)
  qed
qed

lemma options_after_transcribe:
  "(ending (transcribe set_list sr p audio vads bs la ta pulls) = Returned r \<longrightarrow>
      options (after (transcribe set_list sr p audio vads bs la ta pulls)) = options p)
   \<and> options (after (transcribe set_list sr p audio vads bs la ta pulls)) =
       (options p)\<lparr>suppress_tokens :=
          suppress_tokens (options (after (transcribe set_list sr p audio vads bs la ta pulls)))\<rparr>"
proof (cases rule: transcribe_cases [of pulls set_list sr p audio vads bs la ta])
  case idle
  then show ?thesis by simp
next
  case (early p1 lang' n e)
  with select_tokenizer_frame(1) [OF early(1)] show ?thesis by simp
next
  case (looped p1 lang' n p2 prev ys segs st)
  note f1 = select_tokenizer_frame [OF looped(1)]
  note f2 = override_numerals_frame [OF looped(2)]
  show ?thesis
  proof (cases st)
    case Exhausted
    have "options (revert p2 prev) = options p"
    proof (cases "suppress_numerals p1")
      case True
      with f2 have "options (revert p2 prev) = (options p2)\<lparr>suppress_tokens := suppress_tokens (options p1)\<rparr>"
        by (simp add: revert_options)
      also have "\<dots> = options p1" by (subst f2(1)) simp
      finally show ?thesis using f1 by simp
    next
      case False
      with f2 f1 show ?thesis by (simp add: revert_options)
    qed
    with looped(3) Exhausted show ?thesis by simp
  next
    case (Failed e)
    with looped(3) f1 f2(1) show ?thesis by simp
  next
    case Abandoned
    with looped(3) f1 f2(1) show ?thesis by simp
  qed
qed


lemma override_numerals_tokens:
  assumes "suppress_numerals p1" "tokenizer p1 = Some tok"
  shows "override_numerals set_list p1 =
     Inr (p1\<lparr>options := (options p1)\<lparr>suppress_tokens :=
            set_list (map int (find_numeral_symbol_tokens tok) @ suppress_tokens (options p1))\<rparr>\<rparr>,
          suppress_tokens (options p1))"
  using assms by (simp add: override_numerals_def Let_def)

lemma interrupted_keeps_override:
  assumes s: "select_tokenizer p audio (case la of None \<Rightarrow> PyStr (ascii ''vi'') | Some v \<Rightarrow> v)
         (case ta of None \<Rightarrow> PyStr (ascii ''transcribe'') | Some v \<Rightarrow> v) = (p1, lang', n)"
    and t: "tokenizer p1 = Some tok"
    and sn: "suppress_numerals p"
    and np: "pulls \<noteq> Some 0"
    and nr: "\<forall>r. ending (transcribe set_list sr p audio vads bs la ta pulls) \<noteq> Returned r"
  shows "suppress_tokens (options (after (transcribe set_list sr p audio vads bs la ta pulls)))
           = set_list (map int (find_numeral_symbol_tokens tok) @ suppress_tokens (options p))"
proof (cases rule: transcribe_cases [of pulls set_list sr p audio vads bs la ta])
  case idle
  with np show ?thesis by simp
next
  case (early q1 l' m e)
  with s have "q1 = p1" by simp
  with early(2) override_numerals_tokens [OF _ t, of set_list] select_tokenizer_frame(2) [OF s] sn
  show ?thesis by simp
next
  case (looped q1 l' m p2 prev ys segs st)
  with s have q: "q1 = p1" by simp
  from select_tokenizer_frame [OF s] sn have sn1: "suppress_numerals p1" and o1: "options p1 = options p"
    by simp_all
  from looped(2) q override_numerals_tokens [OF sn1 t, of set_list]
  have p2: "p2 = p1\<lparr>options := (options p1)\<lparr>suppress_tokens :=
            set_list (map int (find_numeral_symbol_tokens tok) @ suppress_tokens (options p1))\<rparr>\<rparr>"
    by auto
  from nr looped(3) have "st \<noteq> Exhausted" by (cases st) simp_all
  with looped(3) have "after (transcribe set_list sr p audio vads bs la ta pulls) = p2"
    by (cases st) simp_all
  with p2 o1 show ?thesis by simp
qed

section \<open>The scoped override of suppress_tokens\<close>

text \<open>
  C7 (as amended). When a \<open>transcribe\<close> call runs to completion (the generator
  returns), the options record after the call equals the one before it, so
  \<open>suppress_tokens\<close> has its pre-call value. However the run ends, every other
  field of the options record is as before the call. Nothing restores
  \<open>suppress_tokens\<close> when the run is interrupted: with \<open>suppress_numerals\<close> on, a
  run that was started and does not return leaves the list with the numeral tokens
  in the options.
\<close>

theorem suppress_tokens_restored_on_return:
  "(ending (transcribe set_list sr p audio vads bs la ta pulls) = Returned r \<longrightarrow>
      options (after (transcribe set_list sr p audio vads bs la ta pulls)) = options p)
   \<and> options (after (transcribe set_list sr p audio vads bs la ta pulls)) =
       (options p)\<lparr>suppress_tokens :=
          suppress_tokens (options (after (transcribe set_list sr p audio vads bs la ta pulls)))\<rparr>
   \<and> (select_tokenizer p audio (case la of None \<Rightarrow> PyStr (ascii ''vi'') | Some v \<Rightarrow> v)
         (case ta of None \<Rightarrow> PyStr (ascii ''transcribe'') | Some v \<Rightarrow> v) = (p1, lang', n)
       \<and> tokenizer p1 = Some tok \<and> suppress_numerals p \<and> pulls \<noteq> Some 0
       \<and> (\<forall>r'. ending (transcribe set_list sr p audio vads bs la ta pulls) \<noteq> Returned r')
       \<longrightarrow> suppress_tokens (options (after (transcribe set_list sr p audio vads bs la ta pulls)))
             = set_list (map int (find_numeral_symbol_tokens tok) @ suppress_tokens (options p)))"
proof (intro conjI impI)
  show "options (after (transcribe set_list sr p audio vads bs la ta pulls)) = options p"
    if "ending (transcribe set_list sr p audio vads bs la ta pulls) = Returned r"
    using that options_after_transcribe [of set_list sr p audio vads bs la ta pulls r] by simp
  show "options (after (transcribe set_list sr p audio vads bs la ta pulls)) =
       (options p)\<lparr>suppress_tokens :=
          suppress_tokens (options (after (transcribe set_list sr p audio vads bs la ta pulls)))\<rparr>"
    using options_after_transcribe [of set_list sr p audio vads bs la ta pulls r] by simp
  show "suppress_tokens (options (after (transcribe set_list sr p audio vads bs la ta pulls)))
             = set_list (map int (find_numeral_symbol_tokens tok) @ suppress_tokens (options p))"
    if "select_tokenizer p audio (case la of None \<Rightarrow> PyStr (ascii ''vi'') | Some v \<Rightarrow> v)
         (case ta of None \<Rightarrow> PyStr (ascii ''transcribe'') | Some v \<Rightarrow> v) = (p1, lang', n)
       \<and> tokenizer p1 = Some tok \<and> suppress_numerals p \<and> pulls \<noteq> Some 0
       \<and> (\<forall>r'. ending (transcribe set_list sr p audio vads bs la ta pulls) \<noteq> Returned r')"
    using that by (intro interrupted_keeps_override [of p audio la ta p1 lang' n tok]) simp_all
qed

section \<open>The segment source\<close>

lemma take_drop_nth:
  assumes "hi \<le> length xs"
  shows "take (hi - lo) (drop lo xs) = map ((!) xs) [lo..<hi]"
proof (cases "lo \<le> hi")
  case True
  have "take (hi - lo) (drop lo xs) = take (hi - lo) (drop lo (map ((!) xs) [0..<length xs]))"
    by (simp add: map_nth)
  also have "\<dots> = map ((!) xs) (take (hi - lo) (drop lo [0..<length xs]))"
    by (simp only: take_map drop_map)
  also have "\<dots> = map ((!) xs) [lo..<hi]"
    using True assms by (simp add: take_upt)
  finally show ?thesis .
next
  case False
  then show ?thesis by simp
qed

lemma slice_nonneg:
  assumes "0 \<le> f1" "0 \<le> f2"
  shows "slice xs f1 f2 = map ((!) xs) [min (nat f1) (length xs) ..< min (nat f2) (length xs)]"
  using assms by (simp add: slice_def slice_bound_def Let_def take_drop_nth)

lemma py_int_nonneg: "0 \<le> x \<Longrightarrow> py_int x = \<lfloor>x\<rfloor>"
  by (simp add: py_int_def)

text \<open>
  C8 (as amended). For every waveform and every list of N VAD segments, \<open>data\<close>
  yields exactly N slices in order. For a segment with non-negative times, slice i
  covers the sample indices from \<open>start_i * sample_rate\<close> truncated to an integer
  (inclusive) to \<open>end_i * sample_rate\<close> truncated (exclusive); the code truncates with
  \<open>int\<close>, it does not round. An index beyond the waveform is clipped to its length.
\<close>

theorem segment_source_slices:
  "length (data sample_rate audio segs) = length segs
   \<and> (\<forall>i < length segs.
         0 \<le> vad_start (segs ! i) * sample_rate \<and> 0 \<le> vad_end (segs ! i) * sample_rate \<longrightarrow>
         data sample_rate audio segs ! i =
           map ((!) audio)
             [min (nat \<lfloor>vad_start (segs ! i) * sample_rate\<rfloor>) (length audio) ..<
              min (nat \<lfloor>vad_end (segs ! i) * sample_rate\<rfloor>) (length audio)])"
  by (simp add: data_def slice_nonneg py_int_nonneg)

theorem segment_source_slices_witness:
  "0 < length [\<lparr>vad_start = 1 / 1024, vad_end = 1 / 512\<rparr>]
   \<and> data 16000 [0..<40::nat] [\<lparr>vad_start = 1 / 1024, vad_end = 1 / 512\<rparr>] ! 0
       = map ((!) [0..<40]) [15..<31]"
proof -
  have a: "\<lfloor>(125::real) / 8\<rfloor> = (15::int)" by linarith
  have b: "\<lfloor>(125::real) / 4\<rfloor> = (31::int)" by linarith
  from segment_source_slices [of 16000 "[0..<40::nat]" "[\<lparr>vad_start = 1 / 1024, vad_end = 1 / 512\<rparr>]"]
  have "data 16000 [0..<40::nat] [\<lparr>vad_start = 1 / 1024, vad_end = 1 / 512\<rparr>] ! 0
       = map ((!) [0..<40]) [min (nat \<lfloor>(1 / 1024 :: real) * 16000\<rfloor>) 40 ..< min (nat \<lfloor>(1 / 512 :: real) * 16000\<rfloor>) 40]"
    by simp
  then show ?thesis by (simp add: a b)
qed


text \<open>
  C8 fails as stated: at 16 kHz a segment that starts at 1/1024 s starts at sample
  15 (15.625 truncated), not at the rounded index 16.
\<close>

theorem segment_source_counterexample:
  "data 16000 [0..<40] [\<lparr>vad_start = 1 / 1024, vad_end = 1 / 512\<rparr>] = [[15..<31]]
   \<and> round ((1 / 1024 :: real) * 16000) = (16 :: int)"
proof -
  have a: "\<lfloor>(125::real) / 8\<rfloor> = (15::int)" by linarith
  have b: "\<lfloor>(125::real) / 4\<rfloor> = (31::int)" by linarith
  have c: "\<lfloor>(129::real) / 8\<rfloor> = (16::int)" by linarith
  have "data 16000 [0..<40] [\<lparr>vad_start = 1 / 1024, vad_end = 1 / 512\<rparr>] = [[15..<31]]"
    by (simp add: data_def slice_def slice_bound_def py_int_def a b take_upt)
  moreover have "round ((1 / 1024 :: real) * 16000) = (16 :: int)"
    by (simp add: round_def c)
  ultimately show ?thesis by blast
qed


section \<open>The VAD method\<close>

lemma choose_vad_unrecognised:
  "vad_method \<noteq> Some (ascii ''silero'') \<Longrightarrow> vad_method \<noteq> Some (ascii ''pyannote'') \<Longrightarrow>
   choose_vad ld device None vad_method vopts = Inl (ValueError (invalid_vad_method vad_method))"
  by (simp add: choose_vad_def)

lemma silero_neq_pyannote: "ascii ''silero'' \<noteq> ascii ''pyannote''"
  by (simp add: ascii_def)

lemma choose_vad_silero:
  "choose_vad ld device None (Some (ascii ''silero'')) vopts =
     (case silero_init ld vopts of Some e \<Rightarrow> Inl e | None \<Rightarrow> Inr (Silero vopts))"
  by (simp add: choose_vad_def)

lemma choose_vad_pyannote:
  "choose_vad ld device None (Some (ascii ''pyannote'')) vopts =
     (case torch_device ld device of
        Some e \<Rightarrow> Inl e
      | None \<Rightarrow> (case pyannote_init ld device vopts of
                    Some e \<Rightarrow> Inl e
                  | None \<Rightarrow> Inr (Pyannote device vopts)))"
  using silero_neq_pyannote by (simp add: choose_vad_def)

lemma load_model_after_loading:
  assumes "whisper_load_model ld arch = Inr m" "auto_tokenizer ld = Inr tok"
    "build_options ld m asr = Inr (opts, numerals)"
  shows "load_model ld arch device asr lang vm vad_method vad_options =
     (case choose_vad ld device vm vad_method (merged_vad_options vad_options) of
        Inl e \<Rightarrow> Inl e
      | Inr v \<Rightarrow>
          Inr \<lparr>model = Whisper m, tokenizer = Some tok, options = opts,
               preset_language = (if endswith arch (ascii ''.en'') then Some (ascii ''en'') else lang),
               suppress_numerals = numerals, batch_size_attr = None, vad_model = v,
               vad_params = merged_vad_options vad_options\<rparr>)"
  using assms by (simp add: load_model_def Let_def)

text \<open>
  C9 (as amended). When no VAD instance is passed in and the model, the tokenizer and
  the options are loaded without error: a method name that is neither \<open>silero\<close> nor
  \<open>pyannote\<close> makes \<open>load_model\<close> raise the ValueError that names the method; when
  \<open>torch.device\<close> and the VAD constructors do not raise, \<open>load_model\<close> raises if
  and only if the name is neither of the two, and returns the pipeline if and only if
  it is one of them; and with a recognised name \<open>load_model\<close> raises exactly when the
  chosen constructor (for \<open>pyannote\<close> also \<open>torch.device\<close>) raises.
\<close>

theorem load_model_vad_method:
  assumes "whisper_load_model ld arch = Inr m"
    and "auto_tokenizer ld = Inr tok"
    and "build_options ld m asr = Inr (opts, numerals)"
  shows "(vad_method \<noteq> Some (ascii ''silero'') \<and> vad_method \<noteq> Some (ascii ''pyannote'') \<longrightarrow>
            load_model ld arch device asr lang None vad_method vad_options
              = Inl (ValueError (invalid_vad_method vad_method)))
       \<and> (torch_device ld device = None
           \<and> silero_init ld (merged_vad_options vad_options) = None
           \<and> pyannote_init ld device (merged_vad_options vad_options) = None \<longrightarrow>
            (\<exists>e. load_model ld arch device asr lang None vad_method vad_options = Inl e)
              = (vad_method \<noteq> Some (ascii ''silero'') \<and> vad_method \<noteq> Some (ascii ''pyannote''))
            \<and> (\<exists>p. load_model ld arch device asr lang None vad_method vad_options = Inr p)
              = (vad_method = Some (ascii ''silero'') \<or> vad_method = Some (ascii ''pyannote'')))
       \<and> (vad_method = Some (ascii ''silero'') \<longrightarrow>
            (\<exists>e. load_model ld arch device asr lang None vad_method vad_options = Inl e)
              = (silero_init ld (merged_vad_options vad_options) \<noteq> None))
       \<and> (vad_method = Some (ascii ''pyannote'') \<longrightarrow>
            (\<exists>e. load_model ld arch device asr lang None vad_method vad_options = Inl e)
              = (torch_device ld device \<noteq> None
                 \<or> pyannote_init ld device (merged_vad_options vad_options) \<noteq> None))"
proof -
  note l = load_model_after_loading [OF assms]
  have 1: "load_model ld arch device asr lang None vad_method vad_options
              = Inl (ValueError (invalid_vad_method vad_method))"
    if "vad_method \<noteq> Some (ascii ''silero'') \<and> vad_method \<noteq> Some (ascii ''pyannote'')"
    using that by (simp add: l choose_vad_unrecognised)
  have 3: "(\<exists>e. load_model ld arch device asr lang None vad_method vad_options = Inl e)
              = (silero_init ld (merged_vad_options vad_options) \<noteq> None)"
    if "vad_method = Some (ascii ''silero'')"
    using that by (auto simp: l choose_vad_silero split: option.splits)
  have 4: "(\<exists>e. load_model ld arch device asr lang None vad_method vad_options = Inl e)
              = (torch_device ld device \<noteq> None
                 \<or> pyannote_init ld device (merged_vad_options vad_options) \<noteq> None)"
    if "vad_method = Some (ascii ''pyannote'')"
    using that by (auto simp: l choose_vad_pyannote split: option.splits)
  have 2: "(\<exists>e. load_model ld arch device asr lang None vad_method vad_options = Inl e)
              = (vad_method \<noteq> Some (ascii ''silero'') \<and> vad_method \<noteq> Some (ascii ''pyannote''))
            \<and> (\<exists>p. load_model ld arch device asr lang None vad_method vad_options = Inr p)
              = (vad_method = Some (ascii ''silero'') \<or> vad_method = Some (ascii ''pyannote''))"
    if "torch_device ld device = None
           \<and> silero_init ld (merged_vad_options vad_options) = None
           \<and> pyannote_init ld device (merged_vad_options vad_options) = None"
  proof (cases "vad_method = Some (ascii ''silero'')")
    case True
    with that show ?thesis by (simp add: l choose_vad_silero)
  next
    case False
    note ns = this
    show ?thesis
    proof (cases "vad_method = Some (ascii ''pyannote'')")
      case True
      with that show ?thesis using silero_neq_pyannote by (simp add: l choose_vad_pyannote)
    next
      case False
      with ns show ?thesis by (simp add: l choose_vad_unrecognised)
    qed
  qed
  from 1 2 3 4 show ?thesis by blast
qed

theorem load_model_vad_method_witness:
  "load_model example_loader (ascii ''large-v3'') (ascii ''cpu'') () None None
       (Some (ascii ''webrtc'')) None
     = Inl (ValueError (invalid_vad_method (Some (ascii ''webrtc''))))
   \<and> (\<exists>p. load_model example_loader (ascii ''large-v3'') (ascii ''cpu'') () None None
       (Some (ascii ''silero'')) None = Inr p)
   \<and> (\<exists>p. load_model example_loader (ascii ''large-v3'') (ascii ''cpu'') () None None
       (Some (ascii ''pyannote'')) None = Inr p)"
proof -
  have a: "whisper_load_model example_loader (ascii ''large-v3'') = Inr example_whisper"
    by (simp add: example_loader_def)
  have b: "auto_tokenizer example_loader = Inr (example_tokenizer PyNone PyNone)"
    by (simp add: example_loader_def)
  have c: "build_options example_loader example_whisper () = Inr (example_options, False)"
    by (simp add: example_loader_def)
  have d: "torch_device example_loader (ascii ''cpu'') = None
           \<and> silero_init example_loader (merged_vad_options None) = None
           \<and> pyannote_init example_loader (ascii ''cpu'') (merged_vad_options None) = None"
    by (simp add: example_loader_def)
  have n: "Some (ascii ''webrtc'') \<noteq> Some (ascii ''silero'')
           \<and> Some (ascii ''webrtc'') \<noteq> Some (ascii ''pyannote'')"
    by (simp add: ascii_def)
  note t = load_model_vad_method [OF a b c, of _ "ascii ''cpu''" None None]
  from t [of "Some (ascii ''webrtc'')"] n
  have 1: "load_model example_loader (ascii ''large-v3'') (ascii ''cpu'') () None None
       (Some (ascii ''webrtc'')) None
     = Inl (ValueError (invalid_vad_method (Some (ascii ''webrtc''))))"
    by blast
  from t [of "Some (ascii ''silero'')"] d
  have 2: "\<exists>p. load_model example_loader (ascii ''large-v3'') (ascii ''cpu'') () None None
       (Some (ascii ''silero'')) None = Inr p"
    by blast
  from t [of "Some (ascii ''pyannote'')"] d
  have 3: "\<exists>p. load_model example_loader (ascii ''large-v3'') (ascii ''cpu'') () None None
       (Some (ascii ''pyannote'')) None = Inr p"
    by blast
  from 1 2 3 show ?thesis by blast
qed

text \<open>
  C9 fails as stated: with a recognised method name \<open>load_model\<close> still raises when
  a call before or inside the VAD choice raises. Here the model name is unknown to
  \<open>whisper.load_model\<close> (with \<open>silero\<close>), and the device string is refused by
  \<open>torch.device\<close> (with \<open>pyannote\<close>).
\<close>

theorem load_model_other_errors_counterexample:
  "load_model example_loader (ascii ''huge'') (ascii ''cpu'') () None None
       (Some (ascii ''silero'')) None = Inl ExternalError
   \<and> load_model example_loader (ascii ''large-v3'') (ascii ''tpu'') () None None
       (Some (ascii ''pyannote'')) None = Inl ExternalError"
proof -
  have "load_model example_loader (ascii ''huge'') (ascii ''cpu'') () None None
       (Some (ascii ''silero'')) None = Inl ExternalError"
    by (simp add: load_model_def example_loader_def Let_def) (simp add: ascii_def)
  moreover have "load_model example_loader (ascii ''large-v3'') (ascii ''tpu'') () None None
       (Some (ascii ''pyannote'')) None = Inl ExternalError"
    by (simp add: load_model_def example_loader_def Let_def choose_vad_pyannote)
       (simp add: ascii_def)
  ultimately show ?thesis by blast
qed

section \<open>Runs on the concrete inputs\<close>

lemma data_example:
  "data 16000 example_audio example_segments = [replicate 4000 0, replicate 8000 0]"
  by (simp add: data_def example_audio_def example_segments_def slice_def slice_bound_def
      py_int_def Let_def)

lemma round3_examples: "round3 0 = 0" "round3 0.25 = 0.25" "round3 0.5 = 0.5" "round3 1 = 1"
  by (simp_all add: round3_def round_half_even_def Let_def)

lemma select_tokenizer_other:
  "model p = Whisper f \<Longrightarrow> select_tokenizer p audio lang tsk = (p, lang, 0)"
  "model p = HuggingfaceWhisperModel g \<Longrightarrow> select_tokenizer p audio lang tsk = (p, lang, 0)"
  by (simp_all add: select_tokenizer_def)

lemma numerals_example:
  "find_numeral_symbol_tokens (example_tokenizer tsk lang) = [36, 37, 48, 49]"
proof -
  have "filter (\<lambda>i. has_numeral_symbol (removeprefix_space [i])) [0..<50] = [36, 37, 48, 49]"
    by code_simp
  then show ?thesis
    by (simp add: find_numeral_symbol_tokens_def example_tokenizer_def)
qed

lemma numerals_pipeline_fields:
  "model numerals_pipeline = Whisper example_whisper"
  "options numerals_pipeline = example_options"
  "suppress_numerals numerals_pipeline"
  "batch_size_attr numerals_pipeline = None"
  "tokenizer numerals_pipeline = Some (example_tokenizer (PyStr (ascii ''transcribe'')) (PyStr (ascii ''vi'')))"
  by (simp_all add: numerals_pipeline_def example_pipeline_def)

lemma override_example:
  "override_numerals remdups numerals_pipeline = Inr (overridden, [- 1])"
  by (simp add: override_numerals_def numerals_pipeline_fields numerals_example overridden_def Let_def)
     (simp add: example_options_def)

lemma whisper_output_examples:
  "whisper_output [noise_segment] = []"
  "whisper_output [hello_segment] = ascii ''hello''"
proof -
  show "whisper_output [noise_segment] = []"
    by (simp add: whisper_output_def keep_whisper_def noise_segment_def Let_def split_def)
  have "keep_whisper hello_segment = [ascii '' hello'']"
    by (simp add: keep_whisper_def hello_segment_def Let_def)
       (simp add: strip_def ascii_def isspace_def)
  then show "whisper_output [hello_segment] = ascii ''hello''"
    by (simp add: whisper_output_def) (simp add: split_def ascii_def isspace_def)
qed

lemma call_example:
  "call_pipeline overridden [replicate 4000 0, replicate 8000 0] (Some 2)
     = ([Text [], Text (ascii ''hello'')], None)"
proof -
  have m: "model overridden = Whisper example_whisper"
    by (simp add: overridden_def numerals_pipeline_fields)
  show ?thesis
    by (simp add: call_pipeline_whisper_many [OF m] example_whisper_def whisper_output_examples)
qed

lemma consume_example_one:
  "consume example_segments False 0 [Text [], Text (ascii ''hello'')] None (Some 1)
     = ([segment_of example_segments 0 []], [Text []], Abandoned)"
  by (simp add: example_segments_def segment_of_def)

lemma consume_example_all:
  "consume example_segments False 0 [Text [], Text (ascii ''hello'')] None None
     = ([segment_of example_segments 0 [], segment_of example_segments 1 (ascii ''hello'')],
        [Text [], Text (ascii ''hello'')], Exhausted)"
  by (simp add: example_segments_def segment_of_def)

lemma run_suspended:
  "transcribe remdups 16000 numerals_pipeline example_audio example_segments (Some 2) None None (Some 1)
    = \<lparr>yielded = [Text []], ending = Suspended, after = overridden, detections = 0\<rparr>"
  using consume_example_one call_example
  by (simp add: transcribe_def select_tokenizer_other(1) [OF numerals_pipeline_fields(1)]
      override_example data_example)

lemma overridden_fields:
  "batch_size_attr overridden = None" "suppress_numerals overridden"
  "preset_language overridden = None"
  "options overridden = example_options\<lparr>suppress_tokens := [36, 37, 48, 49, - 1]\<rparr>"
  by (simp_all add: overridden_def numerals_pipeline_def example_pipeline_def)

lemma run_returned:
  "transcribe remdups 16000 numerals_pipeline example_audio example_segments (Some 2) None None None
    = \<lparr>yielded = [Text [], Text (ascii ''hello'')],
       ending = Returned \<lparr>segments = [segment_of example_segments 0 [],
                    segment_of example_segments 1 (ascii ''hello'')],
                  language = PyStr (ascii ''vi'')\<rparr>,
       after = revert overridden [- 1], detections = 0\<rparr>"
  using consume_example_all call_example
  by (simp add: transcribe_def select_tokenizer_other(1) [OF numerals_pipeline_fields(1)]
      override_example data_example)

lemma truthy_vi: "truthy (PyStr (ascii ''vi''))" "truthy (PyStr (ascii ''transcribe''))"
  by (simp_all add: truthy_def)

lemma select_fw_default:
  "select_tokenizer fw_pipeline audio (PyStr (ascii ''vi'')) (PyStr (ascii ''transcribe''))
     = (fw_ready (PyStr (ascii ''vi'')), PyStr (ascii ''vi''), 0)"
  by (simp add: select_tokenizer_def fw_pipeline_def example_pipeline_def truthy_vi py_or_def
      Let_def fw_ready_def example_fw_def)

lemma detect_example: "detect_language example_fw audio = PyStr (ascii ''en'')"
  by (simp add: detect_language_def example_fw_def slice_def slice_bound_def ascii_def)

lemma select_fw_empty:
  "select_tokenizer fw_pipeline audio (PyStr []) (PyStr (ascii ''transcribe''))
     = (fw_ready (PyStr (ascii ''en'')), PyStr (ascii ''en''), 1)"
  by (simp add: select_tokenizer_def fw_pipeline_def example_pipeline_def truthy_vi py_or_def
      Let_def fw_ready_def detect_example)
     (simp add: truthy_def example_fw_def)

lemma fw_ready_fields:
  "model (fw_ready lang) = WhisperModel example_fw"
  "tokenizer (fw_ready lang) = Some (example_tokenizer (PyStr (ascii ''transcribe'')) lang)"
  "options (fw_ready lang) = example_options"
  "\<not> suppress_numerals (fw_ready lang)"
  "batch_size_attr (fw_ready lang) = None"
  "preset_language (fw_ready lang) = None"
  by (simp_all add: fw_ready_def fw_pipeline_def example_pipeline_def)

lemma override_fw: "override_numerals set_list (fw_ready lang) = Inr (fw_ready lang, [])"
  by (simp add: override_numerals_def fw_ready_fields)

lemma generate_example:
  "generate example_fw opts [replicate 4000 0, replicate 8000 0] = [rejected_result, accepted_result]"
  "generate example_fw opts [replicate 4000 0] = [rejected_result]"
  "generate example_fw opts [replicate 8000 0] = [accepted_result]"
  by (simp_all add: example_fw_def)

lemma forward_fw:
  "forward (fw_ready lang) [replicate 4000 0, replicate 8000 0] = Inr [ascii ''hello'']"
  "forward (fw_ready lang) [replicate 4000 0] = Inr []"
  "forward (fw_ready lang) [replicate 8000 0] = Inr [ascii ''hello'']"
  by (simp_all add: forward_def fw_ready_fields generate_example example_tokenizer_def
      example_options_def generate_segment_batched_examples)

lemma call_fw_two:
  "call_pipeline (fw_ready lang) [replicate 4000 0, replicate 8000 0] (Some 2)
     = ([Text (ascii ''hello'')], None)"
  by (simp add: call_pipeline_def batches_step batches_Nil forward_fw)

lemma call_fw_one:
  "call_pipeline (fw_ready lang) [replicate 4000 0, replicate 8000 0] (Some 1)
     = ([Texts [], Texts [ascii ''hello'']], None)"
  by (simp add: call_pipeline_def batches_one forward_fw)

lemma consume_fw_two:
  "consume example_segments False 0 [Text (ascii ''hello'')] None None
     = ([segment_of example_segments 0 (ascii ''hello'')], [Text (ascii ''hello'')], Exhausted)"
  by (simp add: example_segments_def segment_of_def)

lemma consume_fw_one:
  "consume example_segments True 0 [Texts [], Texts [ascii ''hello'']] None None
     = ([], [], Failed IndexError)"
  by (simp add: index0_def)

lemma revert_fw: "revert (fw_ready lang) prev = fw_pipeline"
  by (simp add: revert_def fw_ready_fields Let_def) (simp add: fw_ready_def fw_pipeline_def example_pipeline_def)

lemma run_fw_two:
  "transcribe set_list 16000 fw_pipeline example_audio example_segments (Some 2) None None None
    = \<lparr>yielded = [Text (ascii ''hello'')],
       ending = Returned \<lparr>segments = [segment_of example_segments 0 (ascii ''hello'')],
                  language = PyStr (ascii ''vi'')\<rparr>,
       after = fw_pipeline, detections = 0\<rparr>"
  using consume_fw_two call_fw_two [of "PyStr (ascii ''vi'')"]
  by (simp add: transcribe_def select_fw_default override_fw data_example fw_ready_fields revert_fw)

lemma run_fw_one:
  "transcribe set_list 16000 fw_pipeline example_audio example_segments (Some 1) None None None
    = \<lparr>yielded = [], ending = Raised IndexError,
       after = fw_ready (PyStr (ascii ''vi'')), detections = 0\<rparr>"
  using consume_fw_one call_fw_one [of "PyStr (ascii ''vi'')"]
  by (simp add: transcribe_def select_fw_default override_fw data_example fw_ready_fields)

lemma run_fw_empty_language:
  "transcribe set_list 16000 fw_pipeline example_audio example_segments (Some 2) (Some (PyStr [])) None None
    = \<lparr>yielded = [Text (ascii ''hello'')],
       ending = Returned \<lparr>segments = [segment_of example_segments 0 (ascii ''hello'')],
                  language = PyStr (ascii ''en'')\<rparr>,
       after = fw_pipeline, detections = 1\<rparr>"
  using consume_fw_two call_fw_two [of "PyStr (ascii ''en'')"]
  by (simp add: transcribe_def select_fw_empty override_fw data_example fw_ready_fields revert_fw)

lemma transcribe_detections:
  assumes "select_tokenizer p audio (case la of None \<Rightarrow> PyStr (ascii ''vi'') | Some v \<Rightarrow> v)
         (case ta of None \<Rightarrow> PyStr (ascii ''transcribe'') | Some v \<Rightarrow> v) = (p1, lang', n)"
  shows "detections (transcribe set_list sr p audio vads bs la ta pulls)
           = (if pulls = Some 0 then 0 else n)"
    and "ending (transcribe set_list sr p audio vads bs la ta pulls) = Returned r
           \<Longrightarrow> language r = lang'"
proof -
  show "detections (transcribe set_list sr p audio vads bs la ta pulls)
           = (if pulls = Some 0 then 0 else n)"
    using assms
    by (simp add: transcribe_def Let_def split: sum.splits prod.splits stop.splits)
  show "language r = lang'"
    if "ending (transcribe set_list sr p audio vads bs la ta pulls) = Returned r"
    using that assms
    by (auto simp add: transcribe_def Let_def split: sum.splits prod.splits stop.splits if_splits)
qed

theorem suppress_tokens_restored_on_return_witness:
  "ending (transcribe remdups 16000 numerals_pipeline example_audio example_segments
             (Some 2) None None None)
     = Returned \<lparr>segments = [segment_of example_segments 0 [],
                    segment_of example_segments 1 (ascii ''hello'')],
                  language = PyStr (ascii ''vi'')\<rparr>
   \<and> suppress_numerals numerals_pipeline
   \<and> options (after (transcribe remdups 16000 numerals_pipeline example_audio example_segments
             (Some 2) None None None)) = options numerals_pipeline
   \<and> ending (transcribe remdups 16000 numerals_pipeline example_audio example_segments
             (Some 2) None None (Some 1)) = Suspended
   \<and> suppress_tokens (options (after (transcribe remdups 16000 numerals_pipeline example_audio
             example_segments (Some 2) None None (Some 1))))
       = remdups (map int (find_numeral_symbol_tokens
             (example_tokenizer (PyStr (ascii ''transcribe'')) (PyStr (ascii ''vi''))))
           @ suppress_tokens (options numerals_pipeline))"
proof -
  have e: "ending (transcribe remdups 16000 numerals_pipeline example_audio example_segments
             (Some 2) None None None)
     = Returned \<lparr>segments = [segment_of example_segments 0 [],
                    segment_of example_segments 1 (ascii ''hello'')],
                  language = PyStr (ascii ''vi'')\<rparr>"
    by (simp add: run_returned)
  from suppress_tokens_restored_on_return
    [of remdups 16000 numerals_pipeline example_audio example_segments "Some 2" None None None
       "\<lparr>segments = [segment_of example_segments 0 [],
                    segment_of example_segments 1 (ascii ''hello'')],
                  language = PyStr (ascii ''vi'')\<rparr>"] e
  have r: "options (after (transcribe remdups 16000 numerals_pipeline example_audio
           example_segments (Some 2) None None None)) = options numerals_pipeline"
    by blast
  have u: "ending (transcribe remdups 16000 numerals_pipeline example_audio example_segments
             (Some 2) None None (Some 1)) = Suspended"
    using run_suspended by simp
  have sel: "select_tokenizer numerals_pipeline example_audio
         (case None of None \<Rightarrow> PyStr (ascii ''vi'') | Some v \<Rightarrow> v)
         (case None of None \<Rightarrow> PyStr (ascii ''transcribe'') | Some v \<Rightarrow> v)
       = (numerals_pipeline, PyStr (ascii ''vi''), 0)"
    by (simp add: select_tokenizer_other(1) [OF numerals_pipeline_fields(1)])
  have np: "Some (1::nat) \<noteq> Some 0" by simp
  have nr: "\<forall>r'. ending (transcribe remdups 16000 numerals_pipeline example_audio
              example_segments (Some 2) None None (Some 1)) \<noteq> Returned r'"
    using u by simp
  from suppress_tokens_restored_on_return
    [of remdups 16000 numerals_pipeline example_audio example_segments "Some 2" None None "Some 1"
       _ numerals_pipeline "PyStr (ascii ''vi'')" 0
       "example_tokenizer (PyStr (ascii ''transcribe'')) (PyStr (ascii ''vi''))"]
    sel numerals_pipeline_fields(3,5) np nr
  have k: "suppress_tokens (options (after (transcribe remdups 16000 numerals_pipeline example_audio
             example_segments (Some 2) None None (Some 1))))
       = remdups (map int (find_numeral_symbol_tokens
             (example_tokenizer (PyStr (ascii ''transcribe'')) (PyStr (ascii ''vi''))))
           @ suppress_tokens (options numerals_pipeline))"
    by blast
  from e numerals_pipeline_fields(3) r u k show ?thesis by blast
qed

text \<open>
  C7 fails as stated: a consumer that takes the first of two texts and stops leaves
  the generator suspended, and the pipeline keeps the overridden \<open>suppress_tokens\<close>.
\<close>

theorem suppress_tokens_left_overridden_counterexample:
  "ending (transcribe remdups 16000 numerals_pipeline example_audio example_segments
             (Some 2) None None (Some 1)) = Suspended
   \<and> suppress_tokens (options (after (transcribe remdups 16000 numerals_pipeline example_audio
             example_segments (Some 2) None None (Some 1)))) = [36, 37, 48, 49, - 1]
   \<and> suppress_tokens (options numerals_pipeline) = [- 1]"
  using run_suspended
  by (simp add: overridden_fields numerals_pipeline_fields example_options_def)

section \<open>The language of a call\<close>

text \<open>
  C10 (as amended). The \<open>language\<close> parameter defaults to \<open>vi\<close>. For every call
  whose language is truthy (a non-empty string, the default included), no language is
  detected and the language returned is the one passed. A language is detected exactly
  when the generator is started with a falsy language (\<open>None\<close> or the empty string)
  on a \<open>WhisperModel\<close> with no tokenizer cached.
\<close>

theorem language_default_and_detection:
  assumes "lang = (case la of None \<Rightarrow> PyStr (ascii ''vi'') | Some v \<Rightarrow> v)"
  shows "truthy (PyStr (ascii ''vi''))
    \<and> (truthy lang \<longrightarrow>
         detections (transcribe set_list sr p audio vads bs la ta pulls) = 0
         \<and> (\<forall>r. ending (transcribe set_list sr p audio vads bs la ta pulls) = Returned r
                \<longrightarrow> language r = lang))
    \<and> (detections (transcribe set_list sr p audio vads bs la ta pulls) \<noteq> 0 \<longrightarrow>
         \<not> truthy lang \<and> (\<exists>fw. model p = WhisperModel fw) \<and> tokenizer p = None)
    \<and> detections (transcribe set_list sr p audio vads bs la ta pulls) =
         (if pulls \<noteq> Some 0 \<and> \<not> truthy lang \<and> (\<exists>fw. model p = WhisperModel fw)
             \<and> tokenizer p = None then 1 else 0)"
proof -
  obtain p1 lang' n where s: "select_tokenizer p audio lang
      (case ta of None \<Rightarrow> PyStr (ascii ''transcribe'') | Some v \<Rightarrow> v) = (p1, lang', n)"
    by (metis prod_cases3)
  then have s': "select_tokenizer p audio (case la of None \<Rightarrow> PyStr (ascii ''vi'') | Some v \<Rightarrow> v)
      (case ta of None \<Rightarrow> PyStr (ascii ''transcribe'') | Some v \<Rightarrow> v) = (p1, lang', n)"
    by (simp add: assms)
  note d = transcribe_detections(1) [OF s', of set_list sr vads bs pulls]
  note l = transcribe_detections(2) [OF s', of set_list sr vads bs pulls]
  note k = select_tokenizer_language [OF s]
  have 1: "truthy (PyStr (ascii ''vi''))" by (simp add: truthy_def)
  have 2: "detections (transcribe set_list sr p audio vads bs la ta pulls) = 0
         \<and> (\<forall>r. ending (transcribe set_list sr p audio vads bs la ta pulls) = Returned r
                \<longrightarrow> language r = lang)" if t: "truthy lang"
  proof -
    from k(1) [OF t] have "lang' = lang" "n = 0" by simp_all
    with d l show ?thesis by simp
  qed
  have 4: "detections (transcribe set_list sr p audio vads bs la ta pulls) =
         (if pulls \<noteq> Some 0 \<and> \<not> truthy lang \<and> (\<exists>fw. model p = WhisperModel fw)
             \<and> tokenizer p = None then 1 else 0)"
    unfolding d k(3) by simp
  have 3: "\<not> truthy lang \<and> (\<exists>fw. model p = WhisperModel fw) \<and> tokenizer p = None"
    if "detections (transcribe set_list sr p audio vads bs la ta pulls) \<noteq> 0"
    using that unfolding 4 by (simp split: if_splits)
  from 1 2 3 4 show ?thesis by blast
qed

theorem language_default_and_detection_witness:
  "truthy (PyStr (ascii ''vi''))
   \<and> detections (transcribe remdups 16000 fw_pipeline example_audio example_segments
         (Some 2) None None None) = 0
   \<and> (\<exists>segs. ending (transcribe remdups 16000 fw_pipeline example_audio example_segments
         (Some 2) None None None)
        = Returned \<lparr>segments = segs, language = PyStr (ascii ''vi'')\<rparr>)"
proof -
  have e: "ending (transcribe remdups 16000 fw_pipeline example_audio example_segments
         (Some 2) None None None)
        = Returned \<lparr>segments = [segment_of example_segments 0 (ascii ''hello'')],
             language = PyStr (ascii ''vi'')\<rparr>"
    by (simp add: run_fw_two)
  have l: "PyStr (ascii ''vi'') = (case None of None \<Rightarrow> PyStr (ascii ''vi'') | Some v \<Rightarrow> v)"
    by simp
  from language_default_and_detection
    [OF l, of remdups 16000 fw_pipeline example_audio example_segments "Some 2" None None]
  have "truthy (PyStr (ascii ''vi''))
    \<and> detections (transcribe remdups 16000 fw_pipeline example_audio example_segments
         (Some 2) None None None) = 0"
    by blast
  with e show ?thesis by blast
qed

text \<open>
  C10 fails as stated: a call that passes the empty string as the language (not
  \<open>None\<close>) to a \<open>WhisperModel\<close> pipeline without a tokenizer detects the language,
  and returns the detected language, not the one passed.
\<close>

theorem language_empty_string_counterexample:
  "detections (transcribe remdups 16000 fw_pipeline example_audio example_segments
         (Some 2) (Some (PyStr [])) None None) = 1
   \<and> ending (transcribe remdups 16000 fw_pipeline example_audio example_segments
         (Some 2) (Some (PyStr [])) None None)
       = Returned \<lparr>segments = [segment_of example_segments 0 (ascii ''hello'')],
             language = PyStr (ascii ''en'')\<rparr>
   \<and> PyStr (ascii ''en'') \<noteq> PyStr []"
  by (simp add: run_fw_empty_language)

section \<open>One output segment for each input segment\<close>

text \<open>
  The openai-whisper branch gives one text for each input, so a completed run has one
  segment for each VAD segment, with that segment's text and times, whatever the
  batch size.
\<close>

lemma override_numerals_model:
  assumes "override_numerals set_list p1 = Inr (p2, prev)"
  shows "model p2 = model p1" "batch_size_attr p2 = batch_size_attr p1"
  using assms
  by (auto simp: override_numerals_def Let_def split: option.splits if_splits)

lemma call_pipeline_whisper_default:
  assumes "model p = Whisper f" "batch_size_attr p = None"
  shows "call_pipeline p inputs None =
     (map (\<lambda>x. Texts [whisper_output (f (options p) x)]) inputs, None)"
proof -
  have "call_pipeline p inputs None = call_pipeline p inputs (Some (Suc 0))"
    using assms(2) by (simp add: call_pipeline_def)
  then show ?thesis by (simp add: call_pipeline_whisper_one [OF assms(1)])
qed

lemma length_data: "length (data sr audio vads) = length vads"
  by (simp add: data_def)

lemma transcribe_whisper_all_slots:
  assumes m: "model p = Whisper f"
    and o: "override_numerals set_list p = Inr (p2, prev)"
    and a: "batch_size_attr p \<noteq> Some 0"
  shows "transcribe set_list sr p audio vads bs la ta None =
     \<lparr>yielded = map (\<lambda>x. Text (whisper_output (f (options p2) x))) (data sr audio vads),
      ending = Returned
        \<lparr>segments = map (\<lambda>(i, t). segment_of vads i t)
           (zip [0..<length vads]
              (map (\<lambda>x. whisper_output (f (options p2) x)) (data sr audio vads))),
         language = (case la of None \<Rightarrow> PyStr (ascii ''vi'') | Some v \<Rightarrow> v)\<rparr>,
      after = revert p2 prev, detections = 0\<rparr>"
proof -
  define b where "b = (case bs of None \<Rightarrow> batch_size_attr p2
                         | Some k \<Rightarrow> if k = 0 then batch_size_attr p2 else Some k)"
  define ts where "ts = map (\<lambda>x. whisper_output (f (options p2) x)) (data sr audio vads)"
  have m2: "model p2 = Whisper f" and a2: "batch_size_attr p2 \<noteq> Some 0"
    using override_numerals_model [OF o] m a by simp_all
  have len: "0 + length ts \<le> length vads"
    by (simp add: ts_def length_data)
  have b0: "b \<noteq> Some 0"
    using a2 by (auto simp: b_def split: option.splits if_splits)
  have bn: "batch_size_attr p2 = None" if "b = None"
    using that by (auto simp: b_def split: option.splits if_splits)
  have loop: "(case call_pipeline p2 (data sr audio vads) b of
                 (outs, err) \<Rightarrow> consume vads (b = Some 0 \<or> b = Some 1 \<or> b = None) 0 outs err None)
              = (map (\<lambda>(i, t). segment_of vads i t) (zip [0..<0 + length ts] ts), map Text ts, Exhausted)"
  proof (cases b)
    case None
    with consume_singletons [OF len] call_pipeline_whisper_default [OF m2 bn [OF None], of "data sr audio vads"]
    show ?thesis by (simp add: ts_def comp_def)
  next
    case (Some k)
    with b0 have k: "k = 1 \<or> 1 < k" by auto
    then show ?thesis
    proof
      assume "k = 1"
      with Some consume_singletons [OF len] call_pipeline_whisper_one [OF m2, of "data sr audio vads"]
      show ?thesis by (simp add: ts_def comp_def)
    next
      assume "1 < k"
      with Some consume_texts [OF len] call_pipeline_whisper_many [OF m2, of k "data sr audio vads"]
      show ?thesis by (simp add: ts_def comp_def)
    qed
  qed
  have len': "length ts = length vads" by (simp add: ts_def length_data)
  have yt: "map (\<lambda>x. Text (whisper_output (f (options p2) x))) (data sr audio vads) = map Text ts"
    by (simp add: ts_def comp_def)
  show ?thesis
    using loop
    by (simp add: transcribe_def select_tokenizer_other(1) [OF m] o Let_def b_def [symmetric]
        ts_def [symmetric] len' yt split: prod.splits)
qed

text \<open>
  C2 fails on the faster-whisper branch. \<open>generate_segment_batched\<close> drops a
  rejected candidate from the list it returns, so with two VAD segments of which the
  first is rejected the run returns one segment: the text of the second input with
  the times of the first.
\<close>

theorem dropped_candidate_shifts_segments:
  "length example_segments = 2
   \<and> ending (transcribe remdups 16000 fw_pipeline example_audio example_segments
         (Some 2) None None None)
       = Returned \<lparr>segments = [\<lparr>segment_text = Text (ascii ''hello''), segment_start = 0,
                                  segment_end = 0.25\<rparr>],
            language = PyStr (ascii ''vi'')\<rparr>
   \<and> forward (fw_ready (PyStr (ascii ''vi''))) [replicate 4000 0] = Inr []
   \<and> forward (fw_ready (PyStr (ascii ''vi''))) [replicate 8000 0] = Inr [ascii ''hello'']"
proof -
  have "segment_of example_segments 0 (ascii ''hello'')
          = \<lparr>segment_text = Text (ascii ''hello''), segment_start = 0, segment_end = 0.25\<rparr>"
    using round3_examples by (simp add: segment_of_def example_segments_def)
  then show ?thesis
    by (simp add: run_fw_two forward_fw) (simp add: example_segments_def)
qed

text \<open>
  C3 fails on the faster-whisper branch, by the same dropped candidate: on the same
  input a batch size of 1 raises IndexError at \<open>text[0]\<close> before anything is yielded,
  and a batch size of 2 yields the text of the second input.
\<close>

theorem batch_size_changes_outcome:
  "yielded (transcribe remdups 16000 fw_pipeline example_audio example_segments
         (Some 1) None None None) = []
   \<and> ending (transcribe remdups 16000 fw_pipeline example_audio example_segments
         (Some 1) None None None) = Raised IndexError
   \<and> yielded (transcribe remdups 16000 fw_pipeline example_audio example_segments
         (Some 2) None None None) = [Text (ascii ''hello'')]"
  using run_fw_one [of remdups] run_fw_two [of remdups] by simp

end
